theory Spec2Isabelle
  imports Complex_Main
begin

section \<open>The staircase walking script \<^verbatim>\<open>staircase/walk.py\<close>\<close>

text \<open>
  The script is Python 2 over numpy. The values of its floating-point numbers are
  idealised as reals: \<^verbatim>\<open>pi\<close>, \<^verbatim>\<open>sin\<close> and \<^verbatim>\<open>cos\<close> are the real ones and the
  rounding of the coordinates and angles computed is not modelled. Where a
  rounded value decides how often a loop runs or whether a call fails (the length
  of \<^verbatim>\<open>arange\<close>), the machine's arithmetic is a parameter. Exceptions are
  values of \<open>exn\<close>; a function that can raise returns \<open>exn + 'a\<close> with
  \<open>Inl\<close> for the exception.
\<close>

datatype exn =
  ZeroDivisionError | IndexError | AttributeError string | ValueError string | Exception string

text \<open>
  \<^verbatim>\<open>str(e)\<close> for the exceptions above. An \<^verbatim>\<open>AttributeError\<close> is raised here
  only by reading an attribute of \<^verbatim>\<open>None\<close>; it carries the attribute's name.
\<close>

fun str :: "exn \<Rightarrow> string" where
  "str ZeroDivisionError = ''float division by zero''"
| "str IndexError = ''list index out of range''"
| "str (AttributeError attr) =
     [CHR 0x27] @ ''NoneType'' @ [CHR 0x27] @ '' object has no attribute '' @
     [CHR 0x27] @ attr @ [CHR 0x27]"
| "str (ValueError msg) = msg"
| "str (Exception msg) = msg"

subsection \<open>numpy: arrays of three floats, \<^verbatim>\<open>arange\<close>, the global random source\<close>

type_synonym vec3 = "real \<times> real \<times> real"

text \<open>Broadcasting arithmetic on a length-3 array: \<^verbatim>\<open>a - s\<close>, \<^verbatim>\<open>s * a\<close>, \<^verbatim>\<open>a + b\<close>.\<close>

fun vsub_scalar :: "vec3 \<Rightarrow> real \<Rightarrow> vec3" where
  "vsub_scalar (a, b, c) s = (a - s, b - s, c - s)"

fun smul :: "real \<Rightarrow> vec3 \<Rightarrow> vec3" where
  "smul s (a, b, c) = (s * a, s * b, s * c)"

fun vadd :: "vec3 \<Rightarrow> vec3 \<Rightarrow> vec3" where
  "vadd (a, b, c) (a', b', c') = (a + a', b + b', c + c')"

text \<open>
  What \<^verbatim>\<open>arange\<close> takes from the machine: \<open>fdiv\<close>, the quotient of two floats
  as computed in double precision (rounded, so its ceiling can differ from that of
  the exact quotient), and \<open>alloc\<close>, the creation of an array of a given positive
  length: \<open>None\<close> when it succeeds, or the exception numpy raises (a ValueError
  for a length beyond its index type, a memory error on a machine without room).
\<close>

record numpy =
  fdiv :: "real \<Rightarrow> real \<Rightarrow> real"
  alloc :: "int \<Rightarrow> exn option"

text \<open>
  \<^verbatim>\<open>arange(start, stop, step)\<close> on floats: a zero step raises ZeroDivisionError
  (the quotient is a Python float division); otherwise the length is the ceiling
  of the double quotient \<^verbatim>\<open>(stop - start) / step\<close>, an empty array when that is
  not positive, and element \<open>i\<close> is \<^verbatim>\<open>start + i * step\<close>.
\<close>

definition arange :: "numpy \<Rightarrow> real \<Rightarrow> real \<Rightarrow> real \<Rightarrow> exn + real list" where
  "arange np start stop step =
     (if step = 0 then Inl ZeroDivisionError
      else
        let n = \<lceil>fdiv np (stop - start) step\<rceil> in
        if n \<le> 0 then Inr []
        else
          (case alloc np n of
             Some e \<Rightarrow> Inl e
           | None \<Rightarrow> Inr (map (\<lambda>i. start + real i * step) [0..<nat n])))"

text \<open>
  The module-level random source of \<^verbatim>\<open>numpy.random\<close>: the sequence of floats in
  \<open>[0, 1)\<close> that its seed determines, and how many of them have been consumed.
  \<^verbatim>\<open>seed(n)\<close> resets it to the start of sequence number \<open>n\<close>, whatever it
  was before; the generator that turns a seed into its sequence is numpy's and is
  a parameter here.
\<close>

record rng =
  draws :: "nat \<Rightarrow> real"
  consumed :: nat

definition seed :: "(nat \<Rightarrow> nat \<Rightarrow> real) \<Rightarrow> nat \<Rightarrow> rng \<Rightarrow> rng" where
  "seed generator n g = \<lparr>draws = generator n, consumed = 0\<rparr>"

text \<open>\<^verbatim>\<open>random(3)\<close>: the next three floats of the source.\<close>

definition random3 :: "rng \<Rightarrow> vec3 \<times> rng" where
  "random3 g =
     ((draws g (consumed g), draws g (consumed g + 1), draws g (consumed g + 2)),
      g\<lparr>consumed := consumed g + 3\<rparr>)"

subsection \<open>\<^verbatim>\<open>generate_staircase\<close>\<close>

text \<open>The keyword arguments \<^verbatim>\<open>Contact(...)\<close> is built from.\<close>

record contact =
  X :: real
  Y :: real
  pos :: vec3
  rpy :: vec3
  friction :: real
  visible :: bool

text \<open>
  The body of the \<^verbatim>\<open>for theta in arange(...)\<close> loop: \<^verbatim>\<open>left_foot\<close> is
  built first and draws three numbers, then \<^verbatim>\<open>right_foot\<close> draws the next
  three; both are appended to \<^verbatim>\<open>steps\<close>. The parameter \<^verbatim>\<open>friction\<close> is
  written \<open>friction_coef\<close>, the field of \<open>contact\<close> having the name.
\<close>

fun staircase_loop ::
  "real \<Rightarrow> real \<Rightarrow> real \<Rightarrow> real \<Rightarrow> real \<Rightarrow> real \<Rightarrow> real \<Rightarrow>
   real list \<Rightarrow> contact list \<Rightarrow> rng \<Rightarrow> contact list \<times> rng" where
  "staircase_loop radius angular_step height roughness friction_coef step_dim_x step_dim_y
     [] steps g = (steps, g)"
| "staircase_loop radius angular_step height roughness friction_coef step_dim_x step_dim_y
     (theta # thetas) steps g =
     (let (u, g1) = random3 g;
          left_foot = \<lparr>
            X = step_dim_x,
            Y = step_dim_y,
            pos = (radius * cos theta,
                   radius * sin theta,
                   radius + 0.5 * height * sin theta),
            rpy = vadd (smul roughness (vsub_scalar u 0.5)) (0, 0, theta + 0.5 * pi),
            friction = friction_coef,
            visible = True\<rparr>;
          (v, g2) = random3 g1;
          right_foot = \<lparr>
            X = step_dim_x,
            Y = step_dim_y,
            pos = (1.3 * radius * cos (theta + 0.5 * angular_step),
                   1.3 * radius * sin (theta + 0.5 * angular_step),
                   radius + 0.5 * height * sin (theta + 0.5 * angular_step)),
            rpy = vadd (smul roughness (vsub_scalar v 0.5)) (0, 0, theta + 0.5 * pi),
            friction = friction_coef,
            visible = True\<rparr>
      in staircase_loop radius angular_step height roughness friction_coef step_dim_x step_dim_y
           thetas (steps @ [left_foot, right_foot]) g2)"

text \<open>
  \<^verbatim>\<open>generate_staircase\<close> returns the list of steps; the random source it has
  advanced is returned beside it. There is no check of the arguments: the only
  exceptions are those \<^verbatim>\<open>arange\<close> raises.
\<close>

definition generate_staircase ::
  "numpy \<Rightarrow> real \<Rightarrow> real \<Rightarrow> real \<Rightarrow> real \<Rightarrow> real \<Rightarrow> real \<Rightarrow> real \<Rightarrow> rng \<Rightarrow>
   exn + contact list \<times> rng" where
  "generate_staircase np radius angular_step height roughness friction_coef step_dim_x step_dim_y
     g =
     (case arange np 0 (2 * pi) angular_step of
        Inl e \<Rightarrow> Inl e
      | Inr thetas \<Rightarrow>
          Inr (staircase_loop radius angular_step height roughness friction_coef
                 step_dim_x step_dim_y thetas [] g))"

text \<open>
  What the caller of a function that uses the random source receives: the value
  returned or the exception raised, without the state of the source.
\<close>

definition returned :: "exn + 'a \<times> rng \<Rightarrow> exn + 'a" where
  "returned r = map_sum id fst r"

text \<open>
  For closed examples: a machine whose quotient is the exact one (the double
  quotient agrees with it to within rounding) and whose arrays are limited by
  numpy's index type only.
\<close>

definition ideal_numpy :: numpy where
  "ideal_numpy =
     \<lparr>fdiv = (\<lambda>a b. a / b),
      alloc = (\<lambda>n. if 2 ^ 63 \<le> n then Some (ValueError ''Maximum allowed size exceeded'')
                     else None)\<rparr>"

subsection \<open>\<^verbatim>\<open>dash_graph_handles\<close>\<close>

text \<open>
  A drawing handle is opaque; a list slot holds a handle or \<^verbatim>\<open>None\<close>.
  The loop \<^verbatim>\<open>for i in xrange(len(handles))\<close> runs over the indices in order and
  assigns \<^verbatim>\<open>handles[i] = None\<close> where \<^verbatim>\<open>i % 2 == 0\<close>.
\<close>

fun dash_loop :: "nat list \<Rightarrow> 'h option list \<Rightarrow> 'h option list" where
  "dash_loop [] handles = handles"
| "dash_loop (i # is) handles =
     dash_loop is (if i mod 2 = 0 then handles[i := None] else handles)"

definition dash_graph_handles :: "'h option list \<Rightarrow> 'h option list" where
  "dash_graph_handles handles = dash_loop [0..<length handles] handles"

subsection \<open>\<^verbatim>\<open>update_robot_ik\<close> and the thread of the kinematics solver\<close>




text \<open>\<^verbatim>\<open>fsm.cur_stance\<close>: each foot has a contact or \<^verbatim>\<open>None\<close>.\<close>

record 'c stance =
  left_foot :: "'c option"
  right_foot :: "'c option"












subsection \<open>\<^verbatim>\<open>ForceDrawer\<close>\<close>

record 'h force_drawer =
  last_bkgnd_switch :: "real option"
  handles :: "'h list"
  force_scale :: real

definition ForceDrawer_init :: "'h force_drawer" where
  "ForceDrawer_init = \<lparr>last_bkgnd_switch = None, handles = [], force_scale = 0.0025\<rparr>"

text \<open>\<^verbatim>\<open>a - b\<close> on two arrays, and \<^verbatim>\<open>hstack([a, b])\<close>.\<close>

fun vminus :: "vec3 \<Rightarrow> vec3 \<Rightarrow> vec3" where
  "vminus (a, b, c) (a', b', c') = (a - a', b - b', c - c')"

fun hstack :: "vec3 \<Rightarrow> vec3 \<Rightarrow> real list" where
  "hstack (a, b, c) (a', b', c') = [a, b, c, a', b', c']"

text \<open>
  \<^verbatim>\<open>ForceDrawer.on_tick\<close>. The viewer is the list of the background colours set
  so far, the last one showing. \<^verbatim>\<open>find_supporting_forces\<close> (a method of the
  stance) and \<^verbatim>\<open>draw_force\<close> are the library's and are parameters, as are the
  globals read and the two readings of \<^verbatim>\<open>time.time()\<close>. The test
  \<^verbatim>\<open>not support\<close> holds for \<^verbatim>\<open>None\<close> and for the empty list.
\<close>

definition ForceDrawer_on_tick ::
  "(real list \<Rightarrow> vec3 \<Rightarrow> real \<Rightarrow> real \<Rightarrow> ('c \<times> vec3) list option) \<Rightarrow> ('c \<Rightarrow> vec3 \<Rightarrow> real \<Rightarrow> 'h) \<Rightarrow>
   vec3 \<Rightarrow> vec3 \<Rightarrow> vec3 \<Rightarrow> real \<Rightarrow> real \<Rightarrow> real \<Rightarrow>
   'h force_drawer \<Rightarrow> vec3 list \<Rightarrow> 'h force_drawer \<times> vec3 list" where
  "ForceDrawer_on_tick find_supporting_forces draw_force comdd gravity com_p robot_mass
     now1 now2 self viewer =
     (let wrench = hstack (smul robot_mass (vminus comdd gravity)) (0, 0, 0);
          support = find_supporting_forces wrench com_p robot_mass 10;
          (self1, viewer1) =
            (case support of
               Some (cf # cfs) \<Rightarrow>
                 (self\<lparr>handles := map (\<lambda>(c, fc). draw_force c fc (force_scale self)) (cf # cfs)\<rparr>,
                  viewer)
             | _ \<Rightarrow>
                 (self\<lparr>handles := [], last_bkgnd_switch := Some now1\<rparr>,
                  viewer @ [(0.8, 0.4, 0.4)]))
      in case last_bkgnd_switch self1 of
           Some t \<Rightarrow>
             if now2 - t > 0.2
             then (self1\<lparr>last_bkgnd_switch := None\<rparr>, viewer1 @ [(0.6, 0.6, 0.8)])
             else (self1, viewer1)
         | None \<Rightarrow> (self1, viewer1))"

subsection \<open>\<^verbatim>\<open>TrajectoryDrawer\<close>\<close>

text \<open>
  The attributes of a \<^verbatim>\<open>TrajectoryDrawer\<close>, and its method of the same name,
  which runs the same loop over \<^verbatim>\<open>self.handles\<close>.
\<close>

record ('b, 'h) trajectory_drawer =
  body :: 'b
  color :: char
  handles :: "'h option list"
  last_pos :: vec3
  linestyle :: char
  linewidth :: real
  lr :: "nat option"

definition TrajectoryDrawer_dash_graph_handles ::
  "('b, 'h) trajectory_drawer \<Rightarrow> ('b, 'h) trajectory_drawer" where
  "TrajectoryDrawer_dash_graph_handles self =
     self\<lparr>handles := dash_loop [0..<length (handles self)] (handles self)\<rparr>"

subsection \<open>\<^verbatim>\<open>TubeDrawer\<close>\<close>

type_synonym color = "real \<times> real \<times> real \<times> real"

text \<open>
  The drawing functions of the library, each returning its handle or handles, or
  raising. The arguments that are constants in every call of the script (point
  sizes, line widths, the axis of the cone, the colour \<^verbatim>\<open>'r'\<close>) are left out.
\<close>

record 'h renderer =
  draw_point :: "vec3 \<Rightarrow> color \<Rightarrow> exn + 'h"
  draw_polyhedron :: "vec3 list \<Rightarrow> color \<Rightarrow> exn + 'h list"
  draw_3d_cone :: "vec3 \<Rightarrow> vec3 list \<Rightarrow> color \<Rightarrow> exn + 'h list"
  draw_line :: "vec3 \<Rightarrow> vec3 \<Rightarrow> exn + 'h"
  draw_points :: "vec3 list \<Rightarrow> exn + 'h"

text \<open>
  \<^verbatim>\<open>mpc.tube\<close>: \<^verbatim>\<open>None\<close>, or a tube with its starting stance and its two
  lists of vertex lists.
\<close>

record tube =
  start_stance_is_single_support :: bool
  primal_vrep :: "vec3 list list"
  dual_vrep :: "vec3 list list"

record 'h tube_drawer =
  comdd_handle :: "'h list"
  cone_handles :: "'h list"
  poly_handles :: "'h list"
  acc_scale :: real
  trans :: vec3

definition TubeDrawer_init :: "'h tube_drawer" where
  "TubeDrawer_init =
     \<lparr>comdd_handle = [], cone_handles = [], poly_handles = [], acc_scale = 0.1,
      trans = (0, 0, 1.1)\<rparr>"

text \<open>
  A method returns the drawer as it leaves it and the exception it raised, if
  any: what it assigned before raising stays assigned.
\<close>

fun draw_primal_loop ::
  "'h renderer \<Rightarrow> color list \<Rightarrow> (nat \<times> vec3 list) list \<Rightarrow> 'h tube_drawer \<Rightarrow>
   'h tube_drawer \<times> exn option" where
  "draw_primal_loop R colors [] self = (self, None)"
| "draw_primal_loop R colors ((i, vertices) # rest) self =
     (if length colors \<le> i then (self, Some IndexError)
      else
        let color = colors ! i in
        if length vertices = 1 then
          (case draw_point R (vertices ! 0) color of
             Inl e \<Rightarrow> (self, Some e)
           | Inr h \<Rightarrow>
               draw_primal_loop R colors rest (self\<lparr>poly_handles := poly_handles self @ [h]\<rparr>))
        else
          (case draw_polyhedron R vertices color of
             Inl e \<Rightarrow> (self, Some e)
           | Inr hs \<Rightarrow>
               draw_primal_loop R colors rest (self\<lparr>poly_handles := poly_handles self @ hs\<rparr>)))"

definition draw_primal :: "'h renderer \<Rightarrow> tube option \<Rightarrow> 'h tube_drawer \<Rightarrow> 'h tube_drawer \<times> exn option" where
  "draw_primal R tube self =
     (let self1 = self\<lparr>poly_handles := []\<rparr>;
          colors = [(0.5, 0.5, 0, 0.3), (0, 0.5, 0.5, 0.3)]
      in case tube of
           None \<Rightarrow> (self1, Some (AttributeError ''start_stance''))
         | Some tb \<Rightarrow>
             let colors = (if start_stance_is_single_support tb then rev colors else colors)
             in draw_primal_loop R colors (enumerate 0 (primal_vrep tb)) self1)"

fun draw_dual_loop ::
  "'h renderer \<Rightarrow> vec3 \<Rightarrow> color list \<Rightarrow> (nat \<times> vec3 list) list \<Rightarrow> 'h tube_drawer \<Rightarrow>
   'h tube_drawer \<times> exn option" where
  "draw_dual_loop R apex colors [] self = (self, None)"
| "draw_dual_loop R apex colors ((stance_id, cone_vertices) # rest) self =
     (if length colors \<le> stance_id then (self, Some IndexError)
      else
        let color = colors ! stance_id;
            vscale = map (\<lambda>v. vadd (smul (acc_scale self) v) (trans self)) cone_vertices
        in case draw_3d_cone R apex (drop 1 vscale) color of
             Inl e \<Rightarrow> (self, Some e)
           | Inr hs \<Rightarrow>
               draw_dual_loop R apex colors rest (self\<lparr>cone_handles := cone_handles self @ hs\<rparr>))"

definition draw_dual ::
  "'h renderer \<Rightarrow> tube option \<Rightarrow> vec3 \<Rightarrow> 'h tube_drawer \<Rightarrow> 'h tube_drawer \<times> exn option" where
  "draw_dual R tube com_p self =
     (let self1 = self\<lparr>cone_handles := []\<rparr>;
          self2 = self1\<lparr>trans := com_p\<rparr>;
          apex = vadd (0, 0, acc_scale self2 * - 9.81) (trans self2);
          colors = [(0.5, 0.5, 0, 0.3), (0, 0.5, 0.5, 0.3)]
      in case tube of
           None \<Rightarrow> (self2, Some (AttributeError ''start_stance''))
         | Some tb \<Rightarrow>
             let colors = (if start_stance_is_single_support tb then rev colors else colors)
             in draw_dual_loop R apex colors (enumerate 0 (dual_vrep tb)) self2)"

definition draw_comdd :: "'h renderer \<Rightarrow> vec3 \<Rightarrow> 'h tube_drawer \<Rightarrow> 'h tube_drawer \<times> exn option" where
  "draw_comdd R preview_comdd self =
     (let comdd = vadd (smul (acc_scale self) preview_comdd) (trans self)
      in case draw_line R (trans self) comdd of
           Inl e \<Rightarrow> (self, Some e)
         | Inr line \<Rightarrow>
             (case draw_points R [trans self, comdd] of
                Inl e \<Rightarrow> (self, Some e)
              | Inr points \<Rightarrow> (self\<lparr>comdd_handle := [line, points]\<rparr>, None)))"

text \<open>
  \<^verbatim>\<open>TubeDrawer.on_tick\<close>, with the lines printed so far beside the drawer. The
  first two stages are each inside a \<^verbatim>\<open>try\<close> whose handler prints the
  exception; \<^verbatim>\<open>draw_comdd\<close> is not, and what it raises leaves \<^verbatim>\<open>on_tick\<close>.
\<close>

definition try_draw_primal ::
  "'h renderer \<Rightarrow> tube option \<Rightarrow> 'h tube_drawer \<times> string list \<Rightarrow> 'h tube_drawer \<times> string list" where
  "try_draw_primal R tube = (\<lambda>(self, out).
     case draw_primal R tube self of
       (self1, None) \<Rightarrow> (self1, out)
     | (self1, Some e) \<Rightarrow> (self1, out @ [''Drawing of polytopes failed: '' @ str e]))"

definition try_draw_dual ::
  "'h renderer \<Rightarrow> tube option \<Rightarrow> vec3 \<Rightarrow> 'h tube_drawer \<times> string list \<Rightarrow>
   'h tube_drawer \<times> string list" where
  "try_draw_dual R tube com_p = (\<lambda>(self, out).
     case draw_dual R tube com_p self of
       (self1, None) \<Rightarrow> (self1, out)
     | (self1, Some e) \<Rightarrow> (self1, out @ [''Drawing of dual cones failed: '' @ str e]))"

definition TubeDrawer_on_tick ::
  "'h renderer \<Rightarrow> tube option \<Rightarrow> vec3 \<Rightarrow> vec3 \<Rightarrow> 'h tube_drawer \<times> string list \<Rightarrow>
   ('h tube_drawer \<times> string list) \<times> exn option" where
  "TubeDrawer_on_tick R tube com_p preview_comdd state =
     (let (self1, out1) = try_draw_primal R tube state;
          (self2, out2) = try_draw_dual R tube com_p (self1, out1);
          (self3, raised) = draw_comdd R preview_comdd self2
      in ((self3, out2), raised))"

subsection \<open>The tick scheduler\<close>

text \<open>
  Modelled from the spec: the scheduler \<^verbatim>\<open>Simulation\<close> of \<^verbatim>\<open>wpg.simulation\<close>,
  which the script imports and whose code is not among the source files.
  Section 4.2: processes are registered in a core group and an auxiliary group,
  in the order of invocation; a tick invokes every process's \<^verbatim>\<open>on_tick\<close> once,
  the core group first; if an \<^verbatim>\<open>on_tick\<close> fails, the scheduler logs the
  failure, skips the remainder of that process's work for the tick and continues
  with the next process. A process is its name and its \<^verbatim>\<open>on_tick\<close>, which
  returns the world as it leaves it and the exception it raised, if any; the
  names of the processes invoked are recorded in order.
\<close>

record 'w process =
  process_name :: string
  on_tick :: "'w \<Rightarrow> 'w \<times> exn option"

record 'w simulation =
  processes :: "'w process list"
  extras :: "'w process list"
  tick_count :: nat
  failure_log :: "string list"
  invoked :: "string list"

definition schedule :: "'w process \<Rightarrow> 'w simulation \<Rightarrow> 'w simulation" where
  "schedule p sim = sim\<lparr>processes := processes sim @ [p]\<rparr>"

definition schedule_extra :: "'w process \<Rightarrow> 'w simulation \<Rightarrow> 'w simulation" where
  "schedule_extra p sim = sim\<lparr>extras := extras sim @ [p]\<rparr>"

fun tick_processes ::
  "'w process list \<Rightarrow> 'w \<times> string list \<times> string list \<Rightarrow> 'w \<times> string list \<times> string list" where
  "tick_processes [] (w, failures, names) = (w, failures, names)"
| "tick_processes (p # ps) (w, failures, names) =
     (case on_tick p w of
        (w', None) \<Rightarrow> tick_processes ps (w', failures, names @ [process_name p])
      | (w', Some e) \<Rightarrow>
          tick_processes ps
            (w', failures @ [process_name p @ '': '' @ str e], names @ [process_name p]))"

definition tick :: "'w simulation \<times> 'w \<Rightarrow> 'w simulation \<times> 'w" where
  "tick = (\<lambda>(sim, w).
     case tick_processes (processes sim @ extras sim) (w, failure_log sim, invoked sim) of
       (w', failures, names) \<Rightarrow>
         (sim\<lparr>tick_count := tick_count sim + 1, failure_log := failures, invoked := names\<rparr>,
          w'))"

fun step :: "nat \<Rightarrow> 'w simulation \<times> 'w \<Rightarrow> 'w simulation \<times> 'w" where
  "step 0 state = state"
| "step (Suc n) state = step n (tick state)"

section \<open>Properties\<close>

subsection \<open>Bounds on \<open>pi\<close>\<close>

text \<open>
  The number of loop iterations is a ceiling of a multiple of \<open>pi\<close>; the bounds
  \<open>3 < pi < 13/4\<close> that decide it come from \<open>sin (pi/6) = 1/2\<close> and the
  Maclaurin polynomial of the sine with its remainder.
\<close>

lemma sin_poly5: "(\<Sum>m<5. sin_coeff m * x ^ m) = x - x^3/6" for x :: real
proof -
  have "(\<Sum>m<5. sin_coeff m * x ^ m) =
        (\<Sum>m<Suc (Suc (Suc (Suc (Suc 0)))). sin_coeff m * x ^ m)"
    by (simp add: eval_nat_numeral)
  also have "\<dots> = x - x^3/6"
    by (simp add: sin_coeff_Suc cos_coeff_Suc power3_eq_cube)
  finally show ?thesis .
qed

lemma sin_bound5: "\<bar>sin x - (x - x^3/6)\<bar> \<le> \<bar>x\<bar>^5 / 120" for x :: real
  using Maclaurin_sin_bound[of x 5] by (simp add: sin_poly5 fact_numeral inverse_eq_divide)

lemma pi_gt_3: "3 < pi"
proof -
  define y where "y = pi / 6"
  have y0: "0 < y" by (simp add: y_def)
  have y1: "y < 1" using pi_less_4 by (simp add: y_def)
  have s: "sin y = 1/2" by (simp add: y_def sin_30)
  have "sin y \<le> y - y^3/6 + y^5/120"
    using sin_bound5[of y] y0 by (simp add: abs_if split: if_splits)
  moreover have "y^5/120 < y^3/6"
  proof -
    have "y^5 = y^3 * y^2" by (simp add: power_add[symmetric])
    moreover have "y^2 < 1" using y0 y1 by (simp add: power_less_one_iff)
    moreover have pos3: "0 < y^3" using y0 by simp
    ultimately have "y^5 < y^3" by (metis mult.right_neutral mult_strict_left_mono)
    then show ?thesis using pos3 by linarith
  qed
  ultimately have "1/2 < y" using s by linarith
  then show ?thesis by (simp add: y_def)
qed

lemma pi_less_13_4: "pi < 13/4"
proof (rule ccontr)
  assume large: "\<not> pi < 13/4"
  define y where "y = pi / 6"
  have ya: "13/24 \<le> y" using large by (simp add: y_def)
  have yb: "y \<le> 2/3" using pi_less_4 by (simp add: y_def)
  have y0: "0 \<le> y" using ya by linarith
  have s: "sin y = 1/2" by (simp add: y_def sin_30)
  have lower: "y - y^3/6 - y^5/120 \<le> sin y"
    using sin_bound5[of y] y0 by (simp add: abs_if split: if_splits)
  have y2: "y^2 \<le> (2/3)^2" by (rule power_mono[OF yb y0])
  have y4: "y^4 \<le> (2/3)^4" by (rule power_mono[OF yb y0])
  define c where "c = 1 - y^2/6 - y^4/120"
  have c: "2246/2430 \<le> c"
    using y2 y4 by (simp add: c_def power2_eq_square eval_nat_numeral)
  have "y - y^3/6 - y^5/120 = y * c"
    by (simp add: c_def algebra_simps eval_nat_numeral)
  moreover have "(13/24) * (2246/2430) \<le> y * c"
    using ya c by (intro mult_mono) simp_all
  ultimately have "(13/24) * (2246/2430) \<le> (1/2::real)" using lower s by linarith
  then show False by simp
qed

lemma ceiling_4pi: "\<lceil>4 * pi\<rceil> = 13"
  using pi_gt_3 pi_less_13_4 by (simp add: ceiling_eq_iff)

subsection \<open>The loop of \<^verbatim>\<open>generate_staircase\<close> in closed form\<close>

text \<open>The list built so far is only ever appended to.\<close>

lemma staircase_loop_append:
  "staircase_loop r a h ro f sx sy thetas steps g =
     (steps @ fst (staircase_loop r a h ro f sx sy thetas [] g),
      snd (staircase_loop r a h ro f sx sy thetas [] g))"
proof (induction thetas arbitrary: steps g)
  case Nil
  show ?case by simp
next
  case (Cons theta thetas)
  show ?case
    by (simp add: random3_def Let_def Cons.IH[of "steps @ _"] Cons.IH[of "[_, _]"])
qed

text \<open>Each iteration consumes six numbers of the random source and nothing else.\<close>

lemma staircase_loop_rng:
  "snd (staircase_loop r a h ro f sx sy thetas steps g) =
     g\<lparr>consumed := consumed g + 6 * length thetas\<rparr>"
  by (induction thetas arbitrary: steps g) (simp_all add: random3_def Let_def)

lemma staircase_loop_length:
  "length (fst (staircase_loop r a h ro f sx sy thetas steps g)) =
     length steps + 2 * length thetas"
  by (induction thetas arbitrary: steps g) (simp_all add: random3_def Let_def)

lemma staircase_loop_Cons:
  "fst (staircase_loop r a h ro f sx sy (theta # thetas) [] g) =
     \<lparr>X = sx, Y = sy,
      pos = (r * cos theta, r * sin theta, r + 0.5 * h * sin theta),
      rpy = (ro * (draws g (consumed g) - 0.5) + 0,
             ro * (draws g (consumed g + 1) - 0.5) + 0,
             ro * (draws g (consumed g + 2) - 0.5) + (theta + 0.5 * pi)),
      friction = f, visible = True\<rparr> #
     \<lparr>X = sx, Y = sy,
      pos = (1.3 * r * cos (theta + 0.5 * a), 1.3 * r * sin (theta + 0.5 * a),
             r + 0.5 * h * sin (theta + 0.5 * a)),
      rpy = (ro * (draws g (consumed g + 3) - 0.5) + 0,
             ro * (draws g (consumed g + 4) - 0.5) + 0,
             ro * (draws g (consumed g + 5) - 0.5) + (theta + 0.5 * pi)),
      friction = f, visible = True\<rparr> #
     fst (staircase_loop r a h ro f sx sy thetas [] (g\<lparr>consumed := consumed g + 6\<rparr>))"
  by (simp add: random3_def Let_def staircase_loop_append[of _ _ _ _ _ _ _ _ "[_, _]"] add.commute)

lemma staircase_loop_nth_left:
  "k < length thetas \<Longrightarrow>
   fst (staircase_loop r a h ro f sx sy thetas [] g) ! (2 * k) =
     \<lparr>X = sx, Y = sy,
      pos = (r * cos (thetas ! k), r * sin (thetas ! k), r + 0.5 * h * sin (thetas ! k)),
      rpy = (ro * (draws g (consumed g + 6 * k) - 0.5) + 0,
             ro * (draws g (consumed g + 6 * k + 1) - 0.5) + 0,
             ro * (draws g (consumed g + 6 * k + 2) - 0.5) + (thetas ! k + 0.5 * pi)),
      friction = f, visible = True\<rparr>"
proof (induction thetas arbitrary: k g)
  case Nil
  then show ?case by simp
next
  case (Cons theta thetas)
  show ?case
  proof (cases k)
    case 0
    then show ?thesis by (simp del: staircase_loop.simps add: staircase_loop_Cons)
  next
    case (Suc j)
    then have "j < length thetas" using Cons.prems by simp
    from Cons.IH[OF this, of "g\<lparr>consumed := consumed g + 6\<rparr>"] Suc
    show ?thesis
      by (simp del: staircase_loop.simps add: staircase_loop_Cons add.assoc add.left_commute)
  qed
qed

lemma staircase_loop_nth_right:
  "k < length thetas \<Longrightarrow>
   fst (staircase_loop r a h ro f sx sy thetas [] g) ! (2 * k + 1) =
     \<lparr>X = sx, Y = sy,
      pos = (1.3 * r * cos (thetas ! k + 0.5 * a), 1.3 * r * sin (thetas ! k + 0.5 * a),
             r + 0.5 * h * sin (thetas ! k + 0.5 * a)),
      rpy = (ro * (draws g (consumed g + 6 * k + 3) - 0.5) + 0,
             ro * (draws g (consumed g + 6 * k + 4) - 0.5) + 0,
             ro * (draws g (consumed g + 6 * k + 5) - 0.5) + (thetas ! k + 0.5 * pi)),
      friction = f, visible = True\<rparr>"
proof (induction thetas arbitrary: k g)
  case Nil
  then show ?case by simp
next
  case (Cons theta thetas)
  show ?case
  proof (cases k)
    case 0
    then show ?thesis by (simp del: staircase_loop.simps add: staircase_loop_Cons)
  next
    case (Suc j)
    then have "j < length thetas" using Cons.prems by simp
    from Cons.IH[OF this, of "g\<lparr>consumed := consumed g + 6\<rparr>"] Suc
    show ?thesis
      by (simp del: staircase_loop.simps add: staircase_loop_Cons add.assoc add.left_commute)
  qed
qed

lemma staircase_loop_fields:
  "list_all (\<lambda>c. friction c = f \<and> X c = sx \<and> Y c = sy) steps \<Longrightarrow>
   list_all (\<lambda>c. friction c = f \<and> X c = sx \<and> Y c = sy)
     (fst (staircase_loop r a h ro f sx sy thetas steps g))"
  by (induction thetas arbitrary: steps g) (simp_all add: random3_def Let_def)

text \<open>The steps depend on the random source only through the numbers consumed.\<close>

lemma staircase_loop_cong:
  "(\<And>i. i < 6 * length thetas \<Longrightarrow>
        draws g1 (consumed g1 + i) = draws g2 (consumed g2 + i)) \<Longrightarrow>
   fst (staircase_loop r a h ro f sx sy thetas [] g1) =
   fst (staircase_loop r a h ro f sx sy thetas [] g2)"
proof (induction thetas arbitrary: g1 g2)
  case Nil
  show ?case by simp
next
  case (Cons theta thetas)
  have d: "draws g1 (consumed g1 + i) = draws g2 (consumed g2 + i)" if "i < 6" for i
    using Cons.prems[of i] that by simp
  have "fst (staircase_loop r a h ro f sx sy thetas [] (g1\<lparr>consumed := consumed g1 + 6\<rparr>)) =
        fst (staircase_loop r a h ro f sx sy thetas [] (g2\<lparr>consumed := consumed g2 + 6\<rparr>))"
  proof (rule Cons.IH)
    fix i assume "i < 6 * length thetas"
    then have "6 + i < 6 * length (theta # thetas)" by simp
    from Cons.prems[OF this]
    show "draws (g1\<lparr>consumed := consumed g1 + 6\<rparr>)
            (consumed (g1\<lparr>consumed := consumed g1 + 6\<rparr>) + i) =
          draws (g2\<lparr>consumed := consumed g2 + 6\<rparr>)
            (consumed (g2\<lparr>consumed := consumed g2 + 6\<rparr>) + i)"
      by (simp add: add.assoc)
  qed
  then show ?case
    using d[of 0] d[of 1] d[of 2] d[of 3] d[of 4] d[of 5]
    by (simp del: staircase_loop.simps add: staircase_loop_Cons)
qed

lemma staircase_loop_smooth:
  "fst (staircase_loop r a h 0 f sx sy thetas [] g1) =
   fst (staircase_loop r a h 0 f sx sy thetas [] g2)"
  by (induction thetas arbitrary: g1 g2)
     (simp, simp del: staircase_loop.simps add: staircase_loop_Cons)

subsection \<open>Quotients within rounding\<close>

text \<open>
  Sharper bounds on \<open>pi\<close>, from the same polynomial: they keep \<open>4 * pi\<close> away
  from 12 and 13 by more than any rounding of a double.
\<close>

lemma pi_gt_306: "3.06 < pi"
proof (rule ccontr)
  assume small: "\<not> 3.06 < pi"
  define y where "y = pi / 6"
  have yb: "y \<le> 0.51" using small by (simp add: y_def)
  have ya: "1/2 \<le> y" using pi_gt_3 by (simp add: y_def)
  have y0: "0 \<le> y" using ya by linarith
  have s: "sin y = 1/2" by (simp add: y_def sin_30)
  have upper: "sin y \<le> y - y^3/6 + y^5/120"
    using sin_bound5[of y] y0 by (simp add: abs_if split: if_splits)
  have y3: "(1/2)^3 \<le> y^3" by (rule power_mono[OF ya]) simp
  have y5: "y^5 \<le> 0.51^5" by (rule power_mono[OF yb y0])
  have "y - y^3/6 + y^5/120 \<le> 0.51 - (1/2)^3/6 + 0.51^5/120"
    using yb y3 y5 by linarith
  also have "\<dots> < (1/2::real)" by (simp add: eval_nat_numeral)
  finally show False using upper s by linarith
qed

lemma pi_less_3246: "pi < 3.246"
proof (rule ccontr)
  assume large: "\<not> pi < 3.246"
  define y where "y = pi / 6"
  have ya: "541/1000 \<le> y" using large by (simp add: y_def)
  have yb: "y \<le> 2/3" using pi_less_4 by (simp add: y_def)
  have y0: "0 \<le> y" using ya by simp
  have s: "sin y = 1/2" by (simp add: y_def sin_30)
  have lower: "y - y^3/6 - y^5/120 \<le> sin y"
    using sin_bound5[of y] y0 by (simp add: abs_if split: if_splits)
  have y2: "y^2 \<le> (2/3)^2" by (rule power_mono[OF yb y0])
  have y4: "y^4 \<le> (2/3)^4" by (rule power_mono[OF yb y0])
  define c where "c = 1 - y^2/6 - y^4/120"
  have c: "2246/2430 \<le> c"
    using y2 y4 by (simp add: c_def power2_eq_square eval_nat_numeral)
  have "y - y^3/6 - y^5/120 = y * c"
    by (simp add: c_def algebra_simps eval_nat_numeral)
  moreover have "(541/1000) * (2246/2430) \<le> y * c"
    using ya c by (intro mult_mono) simp_all
  ultimately have "(541/1000) * (2246/2430) \<le> (1/2::real)" using lower s by linarith
  then show False by simp
qed

text \<open>A quotient within rounding of the exact one has its ceiling, unless the
  exact quotient is that close to an integer.\<close>

lemma ceiling_of_rounded:
  fixes q x e :: real
  assumes "\<bar>q - x\<bar> \<le> x * e" and "\<lceil>x * (1 - e)\<rceil> = \<lceil>x * (1 + e)\<rceil>"
  shows "\<lceil>q\<rceil> = \<lceil>x\<rceil> \<and> \<lceil>q\<rceil> = \<lceil>x * (1 + e)\<rceil>"
proof -
  have xe: "0 \<le> x * e" using assms(1) by linarith
  have lo: "x * (1 - e) \<le> q" and hi: "q \<le> x * (1 + e)"
    using assms(1) by (simp_all add: algebra_simps abs_le_iff)
  have lox: "x * (1 - e) \<le> x" and hix: "x \<le> x * (1 + e)"
    using xe by (simp_all add: algebra_simps)
  have "\<lceil>x * (1 - e)\<rceil> \<le> \<lceil>q\<rceil>" "\<lceil>q\<rceil> \<le> \<lceil>x * (1 + e)\<rceil>"
    "\<lceil>x * (1 - e)\<rceil> \<le> \<lceil>x\<rceil>" "\<lceil>x\<rceil> \<le> \<lceil>x * (1 + e)\<rceil>"
    using lo hi lox hix by (simp_all add: ceiling_mono)
  then show ?thesis using assms(2) by linarith
qed

lemma ceiling_4pi_rounded:
  "\<lceil>2 * pi / 0.5 * (1 - 1 / 2 ^ 50)\<rceil> = 13 \<and> \<lceil>2 * pi / 0.5 * (1 + 1 / 2 ^ 50)\<rceil> = 13"
proof -
  have e: "(1::real) / 2 ^ 50 \<le> 1 / 1000" by simp
  define d :: real where "d = 1 / 2 ^ 50"
  have d0: "0 \<le> d" and d1: "d \<le> 1 / 1000" using e by (simp_all add: d_def)
  have p1: "3.06 < pi" by (rule pi_gt_306)
  have p2: "pi < 3.246" by (rule pi_less_3246)
  have "pi * d \<le> 3.246 * (1 / 1000)"
    using p2 d0 d1 by (intro mult_mono) simp_all
  then have a: "12 < 4 * pi * (1 - d)" and b: "4 * pi * (1 + d) \<le> 13"
    using p1 p2 by (simp_all add: algebra_simps)
  have pd: "0 \<le> pi * d" using d0 by simp
  have c: "4 * pi * (1 - d) \<le> 13" "12 < 4 * pi * (1 + d)"
    using a b pd by (simp_all add: algebra_simps)
  have "\<lceil>4 * pi * (1 - d)\<rceil> = 13"
    using a c(1) by (simp only: ceiling_eq_iff) simp
  moreover have "\<lceil>4 * pi * (1 + d)\<rceil> = 13"
    using b c(2) by (simp only: ceiling_eq_iff) simp
  ultimately show ?thesis by (simp add: d_def)
qed

subsection \<open>\<^verbatim>\<open>generate_staircase\<close> step by step\<close>

text \<open>
  With a non-zero angular step for which \<^verbatim>\<open>arange\<close> returns, the call
  returns; iteration \<open>k\<close> of the loop has \<open>theta = k * angular_step\<close> and
  appends the contacts at the indices \<open>2 * k\<close> and \<open>2 * k + 1\<close>, built from
  the draws \<open>6 * k, ..., 6 * k + 5\<close> after those already consumed. The number of
  iterations is the ceiling of the quotient as the machine computes it.
\<close>

lemma ideal_numpy_fdiv: "fdiv ideal_numpy a b = a / b"
  by (simp add: ideal_numpy_def)

lemma ideal_numpy_alloc_None: "n < 2 ^ 63 \<Longrightarrow> alloc ideal_numpy n = None"
  by (simp add: ideal_numpy_def)

lemma ideal_numpy_alloc_Some:
  "2 ^ 63 \<le> n \<Longrightarrow> alloc ideal_numpy n = Some (ValueError ''Maximum allowed size exceeded'')"
  by (simp add: ideal_numpy_def)

lemma arange_angles:
  assumes "a \<noteq> 0"
    and "\<lceil>fdiv np (2 * pi) a\<rceil> \<le> 0 \<or> alloc np \<lceil>fdiv np (2 * pi) a\<rceil> = None"
  shows "arange np 0 (2 * pi) a =
           Inr (map (\<lambda>i. real i * a) [0..<nat \<lceil>fdiv np (2 * pi) a\<rceil>])"
  using assms by (auto simp: arange_def Let_def)

lemma arange_raises:
  assumes "a \<noteq> 0" and "0 < \<lceil>fdiv np (2 * pi) a\<rceil>"
    and "alloc np \<lceil>fdiv np (2 * pi) a\<rceil> = Some e"
  shows "arange np 0 (2 * pi) a = Inl e"
  using assms by (simp add: arange_def Let_def)

lemma generate_staircase_Inr:
  assumes "a \<noteq> 0"
    and "\<lceil>fdiv np (2 * pi) a\<rceil> \<le> 0 \<or> alloc np \<lceil>fdiv np (2 * pi) a\<rceil> = None"
  shows "generate_staircase np r a h ro f sx sy g =
     Inr (fst (staircase_loop r a h ro f sx sy
                 (map (\<lambda>i. real i * a) [0..<nat \<lceil>fdiv np (2 * pi) a\<rceil>]) [] g),
          g\<lparr>consumed := consumed g + 6 * nat \<lceil>fdiv np (2 * pi) a\<rceil>\<rparr>)"
  using staircase_loop_rng[of r a h ro f sx sy
          "map (\<lambda>i. real i * a) [0..<nat \<lceil>fdiv np (2 * pi) a\<rceil>]" "[]" g]
  by (simp add: generate_staircase_def arange_angles[OF assms] prod_eq_iff)

lemma generate_staircase_Inl:
  assumes "a \<noteq> 0" and "0 < \<lceil>fdiv np (2 * pi) a\<rceil>"
    and "alloc np \<lceil>fdiv np (2 * pi) a\<rceil> = Some e"
  shows "generate_staircase np r a h ro f sx sy g = Inl e"
  by (simp add: generate_staircase_def arange_raises[OF assms])

lemma generate_staircase_projr:
  assumes "a \<noteq> 0"
    and "\<lceil>fdiv np (2 * pi) a\<rceil> \<le> 0 \<or> alloc np \<lceil>fdiv np (2 * pi) a\<rceil> = None"
  shows "generate_staircase np r a h ro f sx sy g =
     Inr (fst (projr (generate_staircase np r a h ro f sx sy g)),
          g\<lparr>consumed := consumed g + 6 * nat \<lceil>fdiv np (2 * pi) a\<rceil>\<rparr>)"
  by (simp add: generate_staircase_Inr[OF assms])

lemma generate_staircase_length:
  assumes "a \<noteq> 0"
    and "\<lceil>fdiv np (2 * pi) a\<rceil> \<le> 0 \<or> alloc np \<lceil>fdiv np (2 * pi) a\<rceil> = None"
  shows "length (fst (projr (generate_staircase np r a h ro f sx sy g))) =
           2 * nat \<lceil>fdiv np (2 * pi) a\<rceil>"
  by (simp add: generate_staircase_Inr[OF assms] staircase_loop_length)

lemma generate_staircase_fields:
  assumes "a \<noteq> 0"
    and "\<lceil>fdiv np (2 * pi) a\<rceil> \<le> 0 \<or> alloc np \<lceil>fdiv np (2 * pi) a\<rceil> = None"
  shows "list_all (\<lambda>c. friction c = f \<and> X c = sx \<and> Y c = sy)
           (fst (projr (generate_staircase np r a h ro f sx sy g)))"
  unfolding generate_staircase_Inr[OF assms] sum.sel fst_conv
  by (rule staircase_loop_fields) simp

lemma generate_staircase_nth_left:
  assumes "a \<noteq> 0" and "alloc np \<lceil>fdiv np (2 * pi) a\<rceil> = None"
    and "k < nat \<lceil>fdiv np (2 * pi) a\<rceil>"
  shows "fst (projr (generate_staircase np r a h ro f sx sy g)) ! (2 * k) =
     \<lparr>X = sx, Y = sy,
      pos = (r * cos (real k * a), r * sin (real k * a), r + 0.5 * h * sin (real k * a)),
      rpy = (ro * (draws g (consumed g + 6 * k) - 0.5),
             ro * (draws g (consumed g + 6 * k + 1) - 0.5),
             ro * (draws g (consumed g + 6 * k + 2) - 0.5) + (real k * a + 0.5 * pi)),
      friction = f, visible = True\<rparr>"
  using assms(3)
    staircase_loop_nth_left[of k "map (\<lambda>i. real i * a) [0..<nat \<lceil>fdiv np (2 * pi) a\<rceil>]"
      r a h ro f sx sy g]
  by (simp add: generate_staircase_Inr[OF assms(1) disjI2[OF assms(2)]])

lemma generate_staircase_nth_right:
  assumes "a \<noteq> 0" and "alloc np \<lceil>fdiv np (2 * pi) a\<rceil> = None"
    and "k < nat \<lceil>fdiv np (2 * pi) a\<rceil>"
  shows "fst (projr (generate_staircase np r a h ro f sx sy g)) ! (2 * k + 1) =
     \<lparr>X = sx, Y = sy,
      pos = (1.3 * r * cos (real k * a + 0.5 * a), 1.3 * r * sin (real k * a + 0.5 * a),
             r + 0.5 * h * sin (real k * a + 0.5 * a)),
      rpy = (ro * (draws g (consumed g + 6 * k + 3) - 0.5),
             ro * (draws g (consumed g + 6 * k + 4) - 0.5),
             ro * (draws g (consumed g + 6 * k + 5) - 0.5) + (real k * a + 0.5 * pi)),
      friction = f, visible = True\<rparr>"
  using assms(3)
    staircase_loop_nth_right[of k "map (\<lambda>i. real i * a) [0..<nat \<lceil>fdiv np (2 * pi) a\<rceil>]"
      r a h ro f sx sy g]
  by (simp add: generate_staircase_Inr[OF assms(1) disjI2[OF assms(2)]])

lemma perturbation_range:
  fixes ro u :: real
  assumes "0 \<le> ro" and "0 \<le> u" and "u < 1"
  shows "\<bar>ro * (u - 0.5)\<bar> \<le> ro / 2"
proof -
  have "\<bar>u - 0.5\<bar> \<le> 1 / 2" using assms(2,3) by arith
  then have "ro * \<bar>u - 0.5\<bar> \<le> ro * (1 / 2)" using assms(1) by (rule mult_left_mono)
  then show ?thesis using assms(1) by (simp add: abs_mult)
qed

lemma generate_staircase_smooth_any:
  "returned (generate_staircase np r a h 0 f sx sy g1) =
   returned (generate_staircase np r a h 0 f sx sy g2)"
proof (cases "a = 0")
  case True
  then show ?thesis by (simp add: generate_staircase_def arange_def returned_def)
next
  case nz: False
  show ?thesis
  proof (cases "\<lceil>fdiv np (2 * pi) a\<rceil> \<le> 0 \<or> alloc np \<lceil>fdiv np (2 * pi) a\<rceil> = None")
    case True
    show ?thesis
      using staircase_loop_smooth[of r a h f sx sy
              "map (\<lambda>i. real i * a) [0..<nat \<lceil>fdiv np (2 * pi) a\<rceil>]" g1 g2]
      by (simp add: generate_staircase_Inr[OF nz True] returned_def)
  next
    case False
    then obtain e where "0 < \<lceil>fdiv np (2 * pi) a\<rceil>"
      and "alloc np \<lceil>fdiv np (2 * pi) a\<rceil> = Some e" by auto
    then show ?thesis by (simp add: generate_staircase_Inl[OF nz] returned_def)
  qed
qed

lemma ideal_scenario_angles:
  "\<lceil>fdiv ideal_numpy (2 * pi) 0.5\<rceil> = 13 \<and> alloc ideal_numpy \<lceil>fdiv ideal_numpy (2 * pi) 0.5\<rceil> = None"
proof -
  have "\<lceil>fdiv ideal_numpy (2 * pi) 0.5\<rceil> = 13"
    using ceiling_4pi by (simp add: ideal_numpy_fdiv)
  then show ?thesis by (simp add: ideal_numpy_alloc_None)
qed

lemma ideal_tiny_quotient:
  "0 < fdiv ideal_numpy (2 * pi) (1 / 2 ^ 64) \<and>
   alloc ideal_numpy \<lceil>fdiv ideal_numpy (2 * pi) (1 / 2 ^ 64)\<rceil> =
     Some (ValueError ''Maximum allowed size exceeded'')"
proof -
  have q: "fdiv ideal_numpy (2 * pi) (1 / 2 ^ 64) = 2 * pi * 2 ^ 64"
    by (simp add: ideal_numpy_fdiv)
  have "(2::real) ^ 63 \<le> 2 * pi * 2 ^ 64"
  proof -
    have "(2::real) ^ 63 \<le> 2 * 1 * 2 ^ 64" by simp
    also have "\<dots> \<le> 2 * pi * 2 ^ 64" using pi_gt_3 by (intro mult_mono) simp_all
    finally show ?thesis .
  qed
  then have le: "real_of_int (2 ^ 63) \<le> 2 * pi * 2 ^ 64" by simp
  have "(2::int) ^ 63 = \<lceil>real_of_int (2 ^ 63)\<rceil>" by (simp only: ceiling_of_int)
  also have "\<dots> \<le> \<lceil>2 * pi * 2 ^ 64\<rceil>" using le by (rule ceiling_mono)
  finally have big: "2 ^ 63 \<le> \<lceil>2 * pi * 2 ^ 64\<rceil>" .
  have pos: "0 < 2 * pi * (2::real) ^ 64" using pi_gt_zero by simp
  show ?thesis
    unfolding q by (intro conjI pos ideal_numpy_alloc_Some[OF big])
qed

lemma ideal_tiny_step:
  "generate_staircase ideal_numpy r (1 / 2 ^ 64) h ro f sx sy g =
     Inl (ValueError ''Maximum allowed size exceeded'')"
proof -
  have nz: "(1::real) / 2 ^ 64 \<noteq> 0" by simp
  have q: "0 < fdiv ideal_numpy (2 * pi) (1 / 2 ^ 64)"
    and a: "alloc ideal_numpy \<lceil>fdiv ideal_numpy (2 * pi) (1 / 2 ^ 64)\<rceil> =
     Some (ValueError ''Maximum allowed size exceeded'')"
    using ideal_tiny_quotient by blast+
  from q have pos: "0 < \<lceil>fdiv ideal_numpy (2 * pi) (1 / 2 ^ 64)\<rceil>"
    by (simp only: zero_less_ceiling)
  show ?thesis by (rule generate_staircase_Inl[OF nz pos a])
qed

lemma ideal_large_step: "\<lceil>fdiv ideal_numpy (2 * pi) 8\<rceil> = 1 \<and> alloc ideal_numpy \<lceil>fdiv ideal_numpy (2 * pi) 8\<rceil> = None"
proof -
  have "0 < 2 * pi / 8" using pi_gt_zero by simp
  moreover have "2 * pi / 8 \<le> 1" using pi_less_4 by simp
  ultimately have "\<lceil>2 * pi / 8\<rceil> = 1" by (simp only: ceiling_eq_iff) simp
  then have n: "\<lceil>fdiv ideal_numpy (2 * pi) 8\<rceil> = 1" by (simp only: ideal_numpy_fdiv)
  show ?thesis unfolding n by (simp add: ideal_numpy_alloc_None)
qed

lemma ideal_unit_step: "\<lceil>fdiv ideal_numpy (2 * pi) 1\<rceil> = 7 \<and> alloc ideal_numpy \<lceil>fdiv ideal_numpy (2 * pi) 1\<rceil> = None"
proof -
  have "6 < 2 * pi / 1" using pi_gt_3 by simp
  moreover have "2 * pi / 1 \<le> 7" using pi_less_13_4 by simp
  ultimately have "\<lceil>2 * pi / 1\<rceil> = 7" by (simp only: ceiling_eq_iff) simp
  then have n: "\<lceil>fdiv ideal_numpy (2 * pi) 1\<rceil> = 7" by (simp only: ideal_numpy_fdiv)
  show ?thesis unfolding n by (simp add: ideal_numpy_alloc_None)
qed

lemma ideal_negative_step: "fdiv ideal_numpy (2 * pi) (- 1) \<le> 0"
  using pi_gt_zero by (simp add: ideal_numpy_fdiv)

lemma ceiling_unit:
  fixes q :: real
  assumes "0 < q" and "q \<le> 1"
  shows "\<lceil>q\<rceil> = 1"
  using assms by (simp only: ceiling_eq_iff) simp

subsection \<open>The number of steps and their shared fields\<close>

text \<open>
  Claim C1 says that for every angular step with \<open>0 < angular_step < 2 * pi\<close>
  the call returns \<open>2 * ceiling (2 * pi / angular_step)\<close> contacts. For a very
  small step \<^verbatim>\<open>arange\<close> cannot create its array and the call raises: with the
  angular step \<open>2 powr -64\<close> the length would be beyond \<open>2 ^ 63\<close>, and numpy
  raises a ValueError.
\<close>

theorem tiny_angular_step_raises:
  "(0::real) < 1 / 2 ^ 64 \<and> 1 / 2 ^ 64 < 2 * pi \<and>
   generate_staircase ideal_numpy 1.4 (1 / 2 ^ 64) 1.4 0.5 0.7 0.2 0.1
     \<lparr>draws = (\<lambda>i. 1 / 4), consumed = 0\<rparr> =
     Inl (ValueError ''Maximum allowed size exceeded'')"
proof -
  have a: "(0::real) < 1 / 2 ^ 64" by simp
  have "(1::real) / 2 ^ 64 < 1" by simp
  also have "\<dots> < 2 * pi" using pi_gt_3 by simp
  finally have b: "(1::real) / 2 ^ 64 < 2 * pi" .
  show ?thesis by (intro conjI a b ideal_tiny_step)
qed

text \<open>
  Claim C1, amended. For every parameter tuple with \<open>0 < angular_step < 2 * pi\<close>
  for which \<^verbatim>\<open>arange\<close> can create its array, \<^verbatim>\<open>generate_staircase\<close> returns a
  list of exactly twice as many contacts as the ceiling of the quotient
  \<^verbatim>\<open>2*pi / angular_step\<close> computed in double precision, each with the given
  friction coefficient and the half-extents \<open>(step_dim_x, step_dim_y)\<close>. That
  ceiling is \<open>ceiling (2 * pi / angular_step)\<close> whenever the exact quotient is
  not within rounding (a relative \<open>2 powr -50\<close>) of an integer. It is so in the
  scenario of the script's main block (radius 1.4, angular step 0.5, height 1.4,
  roughness 0.5, friction 0.7, half-extents 0.2 and 0.1), which returns 26
  contacts on every machine that divides to that accuracy and can create an array
  of 13 floats.
\<close>

theorem generate_staircase_count:
  "(0 < angular_step \<and> angular_step < 2 * pi \<and>
    alloc np \<lceil>fdiv np (2 * pi) angular_step\<rceil> = None \<longrightarrow>
      (\<exists>steps g'.
         generate_staircase np radius angular_step height roughness friction_coef
           step_dim_x step_dim_y g = Inr (steps, g') \<and>
         length steps = 2 * nat \<lceil>fdiv np (2 * pi) angular_step\<rceil> \<and>
         (\<forall>c \<in> set steps.
            friction c = friction_coef \<and> X c = step_dim_x \<and> Y c = step_dim_y))) \<and>
   (\<bar>fdiv np (2 * pi) angular_step - 2 * pi / angular_step\<bar>
       \<le> 2 * pi / angular_step * (1 / 2 ^ 50) \<and>
    \<lceil>2 * pi / angular_step * (1 - 1 / 2 ^ 50)\<rceil> =
      \<lceil>2 * pi / angular_step * (1 + 1 / 2 ^ 50)\<rceil> \<longrightarrow>
      \<lceil>fdiv np (2 * pi) angular_step\<rceil> = \<lceil>2 * pi / angular_step\<rceil>) \<and>
   (\<bar>fdiv np (2 * pi) 0.5 - 2 * pi / 0.5\<bar> \<le> 2 * pi / 0.5 * (1 / 2 ^ 50) \<and>
    alloc np 13 = None \<longrightarrow>
      (\<exists>steps g'.
         generate_staircase np 1.4 0.5 1.4 0.5 0.7 0.2 0.1 g = Inr (steps, g') \<and>
         length steps = 26 \<and>
         (\<forall>c \<in> set steps. friction c = 0.7 \<and> X c = 0.2 \<and> Y c = 0.1)))"
proof (intro conjI impI)
  assume h: "0 < angular_step \<and> angular_step < 2 * pi \<and>
    alloc np \<lceil>fdiv np (2 * pi) angular_step\<rceil> = None"
  then have nz: "angular_step \<noteq> 0" by simp
  from h have ok: "\<lceil>fdiv np (2 * pi) angular_step\<rceil> \<le> 0 \<or>
    alloc np \<lceil>fdiv np (2 * pi) angular_step\<rceil> = None" by simp
  let ?r = "generate_staircase np radius angular_step height roughness friction_coef
              step_dim_x step_dim_y g"
  have "?r = Inr (fst (projr ?r),
          g\<lparr>consumed := consumed g + 6 * nat \<lceil>fdiv np (2 * pi) angular_step\<rceil>\<rparr>)"
    by (rule generate_staircase_projr[OF nz ok])
  moreover have "length (fst (projr ?r)) = 2 * nat \<lceil>fdiv np (2 * pi) angular_step\<rceil>"
    by (rule generate_staircase_length[OF nz ok])
  moreover have "\<forall>c \<in> set (fst (projr ?r)).
            friction c = friction_coef \<and> X c = step_dim_x \<and> Y c = step_dim_y"
    using generate_staircase_fields[OF nz ok, where r = radius and h = height
            and ro = roughness and f = friction_coef and sx = step_dim_x and sy = step_dim_y
            and g = g]
    by (simp add: list_all_iff)
  ultimately show "\<exists>steps g'. ?r = Inr (steps, g') \<and>
         length steps = 2 * nat \<lceil>fdiv np (2 * pi) angular_step\<rceil> \<and>
         (\<forall>c \<in> set steps.
            friction c = friction_coef \<and> X c = step_dim_x \<and> Y c = step_dim_y)"
    by metis
next
  assume "\<bar>fdiv np (2 * pi) angular_step - 2 * pi / angular_step\<bar>
       \<le> 2 * pi / angular_step * (1 / 2 ^ 50) \<and>
    \<lceil>2 * pi / angular_step * (1 - 1 / 2 ^ 50)\<rceil> =
      \<lceil>2 * pi / angular_step * (1 + 1 / 2 ^ 50)\<rceil>"
  then show "\<lceil>fdiv np (2 * pi) angular_step\<rceil> = \<lceil>2 * pi / angular_step\<rceil>"
    using ceiling_of_rounded[of "fdiv np (2 * pi) angular_step" "2 * pi / angular_step"
            "1 / 2 ^ 50"]
    by blast
next
  assume h: "\<bar>fdiv np (2 * pi) 0.5 - 2 * pi / 0.5\<bar> \<le> 2 * pi / 0.5 * (1 / 2 ^ 50) \<and>
    alloc np 13 = None"
  have lo: "\<lceil>2 * pi / 0.5 * (1 - 1 / 2 ^ 50)\<rceil> = 13"
    and hi: "\<lceil>2 * pi / 0.5 * (1 + 1 / 2 ^ 50)\<rceil> = 13"
    using ceiling_4pi_rounded by blast+
  have same: "\<lceil>2 * pi / 0.5 * (1 - 1 / 2 ^ 50)\<rceil> = \<lceil>2 * pi / 0.5 * (1 + 1 / 2 ^ 50)\<rceil>"
    by (simp only: lo hi)
  have "\<lceil>fdiv np (2 * pi) 0.5\<rceil> = \<lceil>2 * pi / 0.5 * (1 + 1 / 2 ^ 50)\<rceil>"
    using ceiling_of_rounded[OF conjunct1[OF h] same] by blast
  then have n: "\<lceil>fdiv np (2 * pi) 0.5\<rceil> = 13" by (simp only: hi)
  have nz: "(0.5::real) \<noteq> 0" by simp
  have ok: "\<lceil>fdiv np (2 * pi) 0.5\<rceil> \<le> 0 \<or> alloc np \<lceil>fdiv np (2 * pi) 0.5\<rceil> = None"
    using h by (simp only: n) simp
  let ?r = "generate_staircase np 1.4 0.5 1.4 0.5 0.7 0.2 0.1 g"
  have "?r = Inr (fst (projr ?r),
          g\<lparr>consumed := consumed g + 6 * nat \<lceil>fdiv np (2 * pi) 0.5\<rceil>\<rparr>)"
    by (rule generate_staircase_projr[OF nz ok])
  moreover have "length (fst (projr ?r)) = 26"
    unfolding generate_staircase_length[OF nz ok] n by simp
  moreover have "\<forall>c \<in> set (fst (projr ?r)). friction c = 0.7 \<and> X c = 0.2 \<and> Y c = 0.1"
    using generate_staircase_fields[OF nz ok, where r = "1.4" and h = "1.4"
            and ro = "0.5" and f = "0.7" and sx = "0.2" and sy = "0.1" and g = g]
    by (simp add: list_all_iff)
  ultimately show "\<exists>steps g'. ?r = Inr (steps, g') \<and> length steps = 26 \<and>
         (\<forall>c \<in> set steps. friction c = 0.7 \<and> X c = 0.2 \<and> Y c = 0.1)"
    by metis
qed

theorem generate_staircase_count_scenario:
  "(\<exists>steps g'.
      generate_staircase ideal_numpy 1.4 0.5 1.4 0.5 0.7 0.2 0.1
        \<lparr>draws = (\<lambda>i. 1 / 4), consumed = 0\<rparr> = Inr (steps, g') \<and>
      length steps = 26 \<and>
      length steps = 2 * nat \<lceil>fdiv ideal_numpy (2 * pi) 0.5\<rceil> \<and>
      list_all (\<lambda>c. friction c = 0.7 \<and> X c = 0.2 \<and> Y c = 0.1) steps) \<and>
   \<lceil>fdiv ideal_numpy (2 * pi) 0.5\<rceil> = \<lceil>2 * pi / 0.5\<rceil>"
proof -
  let ?g = "\<lparr>draws = (\<lambda>i. 1 / 4), consumed = 0\<rparr>"
  note t = generate_staircase_count[where np = ideal_numpy and angular_step = "0.5"
      and radius = "1.4" and height = "1.4" and roughness = "0.5" and friction_coef = "0.7"
      and step_dim_x = "0.2" and step_dim_y = "0.1" and g = ?g]
  have h1: "(0::real) < 0.5 \<and> 0.5 < 2 * pi \<and>
    alloc ideal_numpy \<lceil>fdiv ideal_numpy (2 * pi) 0.5\<rceil> = None"
  proof (intro conjI)
    show "(0::real) < 0.5" by simp
    show "0.5 < 2 * pi" using pi_gt_3 by simp
    show "alloc ideal_numpy \<lceil>fdiv ideal_numpy (2 * pi) 0.5\<rceil> = None"
      using ideal_scenario_angles by blast
  qed
  have h2: "\<bar>fdiv ideal_numpy (2 * pi) 0.5 - 2 * pi / 0.5\<bar> \<le> 2 * pi / 0.5 * (1 / 2 ^ 50)"
    by (simp add: ideal_numpy_fdiv)
  have h3: "\<lceil>2 * pi / 0.5 * (1 - 1 / 2 ^ 50)\<rceil> = \<lceil>2 * pi / 0.5 * (1 + 1 / 2 ^ 50)\<rceil>"
  proof -
    have lo: "\<lceil>2 * pi / 0.5 * (1 - 1 / 2 ^ 50)\<rceil> = 13"
      and hi: "\<lceil>2 * pi / 0.5 * (1 + 1 / 2 ^ 50)\<rceil> = 13"
      using ceiling_4pi_rounded by blast+
    show ?thesis by (simp only: lo hi)
  qed
  have h4: "alloc ideal_numpy 13 = None" by (simp add: ideal_numpy_alloc_None)
  from t h1 obtain steps g' where
    a: "generate_staircase ideal_numpy 1.4 0.5 1.4 0.5 0.7 0.2 0.1 ?g = Inr (steps, g')"
    and b: "length steps = 2 * nat \<lceil>fdiv ideal_numpy (2 * pi) 0.5\<rceil>"
    and c: "\<forall>c \<in> set steps. friction c = 0.7 \<and> X c = 0.2 \<and> Y c = 0.1"
    by blast
  from t h2 h4 obtain steps' g'' where
    a': "generate_staircase ideal_numpy 1.4 0.5 1.4 0.5 0.7 0.2 0.1 ?g = Inr (steps', g'')"
    and b': "length steps' = 26"
    by blast
  from a a' have "steps' = steps" by simp
  with b' have "length steps = 26" by simp
  moreover from t h2 h3 have "\<lceil>fdiv ideal_numpy (2 * pi) 0.5\<rceil> = \<lceil>2 * pi / 0.5\<rceil>"
    by blast
  ultimately show ?thesis using a b c by (auto simp: list_all_iff)
qed

subsection \<open>The left contact of an iteration\<close>

text \<open>
  Claim C3. For every angular step \<open>theta\<close> of \<^verbatim>\<open>generate_staircase\<close> (the
  \<open>k\<close>-th, \<open>theta = k * angular_step\<close>), the left contact is at
  \<open>(radius * cos theta, radius * sin theta, radius + 0.5 * height * sin theta)\<close>;
  its roll, pitch and yaw are \<open>0\<close>, \<open>0\<close> and \<open>theta + pi/2\<close>, each plus a
  perturbation \<open>roughness * (u - 0.5)\<close> for a draw \<open>u\<close> of its own from the
  random source (three consecutive draws that no other contact uses). For a draw
  in \<open>[0, 1)\<close> and a non-negative roughness the perturbation lies in the interval
  of width \<open>roughness\<close> centred at zero. That the draws are uniform is numpy's
  contract for \<^verbatim>\<open>random\<close>, a parameter of the model. The angular steps are
  those \<^verbatim>\<open>arange\<close> returns: as many as the ceiling of the double quotient.
\<close>

theorem generate_staircase_left_surface:
  assumes "angular_step \<noteq> 0"
    and "alloc np \<lceil>fdiv np (2 * pi) angular_step\<rceil> = None"
    and "k < nat \<lceil>fdiv np (2 * pi) angular_step\<rceil>"
  shows "\<exists>steps g'.
           generate_staircase np radius angular_step height roughness friction_coef
             step_dim_x step_dim_y g = Inr (steps, g') \<and>
           pos (steps ! (2 * k)) =
             (radius * cos (real k * angular_step),
              radius * sin (real k * angular_step),
              radius + 0.5 * height * sin (real k * angular_step)) \<and>
           rpy (steps ! (2 * k)) =
             (roughness * (draws g (consumed g + 6 * k) - 0.5),
              roughness * (draws g (consumed g + 6 * k + 1) - 0.5),
              roughness * (draws g (consumed g + 6 * k + 2) - 0.5)
                + (real k * angular_step + pi / 2)) \<and>
           (\<forall>j < 3. 0 \<le> roughness \<and> 0 \<le> draws g (consumed g + 6 * k + j) \<and>
                   draws g (consumed g + 6 * k + j) < 1 \<longrightarrow>
                   \<bar>roughness * (draws g (consumed g + 6 * k + j) - 0.5)\<bar> \<le> roughness / 2)"
proof -
  let ?r = "generate_staircase np radius angular_step height roughness friction_coef
              step_dim_x step_dim_y g"
  have "?r = Inr (fst (projr ?r),
          g\<lparr>consumed := consumed g + 6 * nat \<lceil>fdiv np (2 * pi) angular_step\<rceil>\<rparr>)"
    by (rule generate_staircase_projr[OF assms(1) disjI2[OF assms(2)]])
  moreover have "pos (fst (projr ?r) ! (2 * k)) =
             (radius * cos (real k * angular_step),
              radius * sin (real k * angular_step),
              radius + 0.5 * height * sin (real k * angular_step))"
    by (simp add: generate_staircase_nth_left[OF assms])
  moreover have "rpy (fst (projr ?r) ! (2 * k)) =
             (roughness * (draws g (consumed g + 6 * k) - 0.5),
              roughness * (draws g (consumed g + 6 * k + 1) - 0.5),
              roughness * (draws g (consumed g + 6 * k + 2) - 0.5)
                + (real k * angular_step + pi / 2))"
    by (simp add: generate_staircase_nth_left[OF assms])
  moreover have "\<forall>j < 3. 0 \<le> roughness \<and> 0 \<le> draws g (consumed g + 6 * k + j) \<and>
                   draws g (consumed g + 6 * k + j) < 1 \<longrightarrow>
                   \<bar>roughness * (draws g (consumed g + 6 * k + j) - 0.5)\<bar> \<le> roughness / 2"
    using perturbation_range by blast
  ultimately show ?thesis by metis
qed

theorem generate_staircase_left_surface_scenario:
  "(0.5::real) \<noteq> 0 \<and> 1 < nat \<lceil>fdiv ideal_numpy (2 * pi) 0.5\<rceil> \<and>
   (\<exists>steps g'.
      generate_staircase ideal_numpy 1.4 0.5 1.4 0.5 0.7 0.2 0.1
        \<lparr>draws = (\<lambda>i. 1 / 4), consumed = 0\<rparr> = Inr (steps, g') \<and>
      pos (steps ! 2) = (1.4 * cos 0.5, 1.4 * sin 0.5, 1.4 + 0.7 * sin 0.5) \<and>
      rpy (steps ! 2) = (- 1 / 8, - 1 / 8, - 1 / 8 + (0.5 + pi / 2)) \<and>
      \<bar>- 1 / 8\<bar> \<le> (0.5::real) / 2)"
proof -
  have h1: "(0.5::real) \<noteq> 0" by simp
  have n: "\<lceil>fdiv ideal_numpy (2 * pi) 0.5\<rceil> = 13"
    and h2: "alloc ideal_numpy \<lceil>fdiv ideal_numpy (2 * pi) 0.5\<rceil> = None"
    using ideal_scenario_angles by blast+
  have h3: "1 < nat \<lceil>fdiv ideal_numpy (2 * pi) 0.5\<rceil>" unfolding n by simp
  from generate_staircase_left_surface[OF h1 h2 h3, where radius = "1.4" and height = "1.4"
         and roughness = "0.5" and friction_coef = "0.7" and step_dim_x = "0.2"
         and step_dim_y = "0.1" and g = "\<lparr>draws = (\<lambda>i. 1 / 4), consumed = 0\<rparr>"]
  show ?thesis using h3 by auto
qed

subsection \<open>The right contact of an iteration\<close>

text \<open>
  Claim C2 says that the right contact's height and yaw follow the left contact's
  formulas at the offset angle \<open>theta + angular_step / 2\<close>. The position does;
  the yaw does not: line 109 of the source adds \<open>theta + pi/2\<close>, as for the left
  contact. In the script's scenario with every draw equal to \<open>1/2\<close> (so that the
  perturbation vanishes) the first right contact sits at the angle \<open>0.25\<close> and
  has the yaw \<open>pi/2\<close>, not \<open>0.25 + pi/2\<close>.
\<close>

theorem right_surface_yaw_not_at_offset_angle:
  "pos (fst (projr (generate_staircase ideal_numpy 1.4 0.5 1.4 0.5 0.7 0.2 0.1
                      \<lparr>draws = (\<lambda>i. 1 / 2), consumed = 0\<rparr>)) ! 1) =
     (1.3 * 1.4 * cos (0 + 0.5 / 2), 1.3 * 1.4 * sin (0 + 0.5 / 2),
      1.4 + 0.5 * 1.4 * sin (0 + 0.5 / 2)) \<and>
   rpy (fst (projr (generate_staircase ideal_numpy 1.4 0.5 1.4 0.5 0.7 0.2 0.1
                      \<lparr>draws = (\<lambda>i. 1 / 2), consumed = 0\<rparr>)) ! 1) =
     (0, 0, 0 + pi / 2) \<and>
   rpy (fst (projr (generate_staircase ideal_numpy 1.4 0.5 1.4 0.5 0.7 0.2 0.1
                      \<lparr>draws = (\<lambda>i. 1 / 2), consumed = 0\<rparr>)) ! 1) \<noteq>
     (0.5 * (1 / 2 - 0.5), 0.5 * (1 / 2 - 0.5), 0.5 * (1 / 2 - 0.5) + ((0 + 0.5 / 2) + pi / 2))"
proof -
  have h1: "(0.5::real) \<noteq> 0" by simp
  have n: "\<lceil>fdiv ideal_numpy (2 * pi) 0.5\<rceil> = 13"
    and h2: "alloc ideal_numpy \<lceil>fdiv ideal_numpy (2 * pi) 0.5\<rceil> = None"
    using ideal_scenario_angles by blast+
  have h3: "0 < nat \<lceil>fdiv ideal_numpy (2 * pi) 0.5\<rceil>" unfolding n by simp
  show ?thesis
    using generate_staircase_nth_right[OF h1 h2 h3, where r = "1.4" and h = "1.4"
            and ro = "0.5" and f = "0.7" and sx = "0.2" and sy = "0.1"
            and g = "\<lparr>draws = (\<lambda>i. 1 / 2), consumed = 0\<rparr>"]
    by simp
qed

text \<open>
  Claim C2, amended. For every angular step \<open>theta\<close> of \<^verbatim>\<open>generate_staircase\<close>,
  the right contact is placed at radius \<open>1.3 * radius\<close> at the offset angle
  \<open>theta + angular_step / 2\<close>, with the height
  \<open>radius + 0.5 * height * sin (theta + angular_step / 2)\<close>; its yaw is
  \<open>theta + pi/2\<close>, at the angle \<open>theta\<close> itself, plus the perturbation
  \<open>roughness * (u - 0.5)\<close> on each axis.
\<close>

theorem generate_staircase_right_surface:
  assumes "angular_step \<noteq> 0"
    and "alloc np \<lceil>fdiv np (2 * pi) angular_step\<rceil> = None"
    and "k < nat \<lceil>fdiv np (2 * pi) angular_step\<rceil>"
  shows "\<exists>steps g'.
           generate_staircase np radius angular_step height roughness friction_coef
             step_dim_x step_dim_y g = Inr (steps, g') \<and>
           pos (steps ! (2 * k + 1)) =
             (1.3 * radius * cos (real k * angular_step + angular_step / 2),
              1.3 * radius * sin (real k * angular_step + angular_step / 2),
              radius + 0.5 * height * sin (real k * angular_step + angular_step / 2)) \<and>
           rpy (steps ! (2 * k + 1)) =
             (roughness * (draws g (consumed g + 6 * k + 3) - 0.5),
              roughness * (draws g (consumed g + 6 * k + 4) - 0.5),
              roughness * (draws g (consumed g + 6 * k + 5) - 0.5)
                + (real k * angular_step + pi / 2))"
proof -
  let ?r = "generate_staircase np radius angular_step height roughness friction_coef
              step_dim_x step_dim_y g"
  note nth = generate_staircase_nth_right[OF assms, where r = radius and h = height
            and ro = roughness and f = friction_coef and sx = step_dim_x and sy = step_dim_y
            and g = g]
  have "?r = Inr (fst (projr ?r),
          g\<lparr>consumed := consumed g + 6 * nat \<lceil>fdiv np (2 * pi) angular_step\<rceil>\<rparr>)"
    by (rule generate_staircase_projr[OF assms(1) disjI2[OF assms(2)]])
  moreover have "pos (fst (projr ?r) ! (2 * k + 1)) =
             (1.3 * radius * cos (real k * angular_step + angular_step / 2),
              1.3 * radius * sin (real k * angular_step + angular_step / 2),
              radius + 0.5 * height * sin (real k * angular_step + angular_step / 2))"
    using nth by simp
  moreover have "rpy (fst (projr ?r) ! (2 * k + 1)) =
             (roughness * (draws g (consumed g + 6 * k + 3) - 0.5),
              roughness * (draws g (consumed g + 6 * k + 4) - 0.5),
              roughness * (draws g (consumed g + 6 * k + 5) - 0.5)
                + (real k * angular_step + pi / 2))"
    using nth by simp
  ultimately show ?thesis by metis
qed

theorem generate_staircase_right_surface_scenario:
  "(0.5::real) \<noteq> 0 \<and> 1 < nat \<lceil>fdiv ideal_numpy (2 * pi) 0.5\<rceil> \<and>
   (\<exists>steps g'.
      generate_staircase ideal_numpy 1.4 0.5 1.4 0.5 0.7 0.2 0.1
        \<lparr>draws = (\<lambda>i. 1 / 4), consumed = 0\<rparr> = Inr (steps, g') \<and>
      pos (steps ! 3) = (1.3 * 1.4 * cos 0.75, 1.3 * 1.4 * sin 0.75, 1.4 + 0.7 * sin 0.75) \<and>
      rpy (steps ! 3) = (- 1 / 8, - 1 / 8, - 1 / 8 + (0.5 + pi / 2)))"
proof -
  have h1: "(0.5::real) \<noteq> 0" by simp
  have n: "\<lceil>fdiv ideal_numpy (2 * pi) 0.5\<rceil> = 13"
    and h2: "alloc ideal_numpy \<lceil>fdiv ideal_numpy (2 * pi) 0.5\<rceil> = None"
    using ideal_scenario_angles by blast+
  have h3: "1 < nat \<lceil>fdiv ideal_numpy (2 * pi) 0.5\<rceil>" unfolding n by simp
  from generate_staircase_right_surface[OF h1 h2 h3, where radius = "1.4" and height = "1.4"
         and roughness = "0.5" and friction_coef = "0.7" and step_dim_x = "0.2"
         and step_dim_y = "0.1" and g = "\<lparr>draws = (\<lambda>i. 1 / 4), consumed = 0\<rparr>"]
  show ?thesis using h3 by auto
qed

subsection \<open>Angular steps outside \<open>(0, 2 * pi)\<close>\<close>

text \<open>
  Claim C4 says that a call with \<open>angular_step \<le> 0\<close> or
  \<open>angular_step \<ge> 2 * pi\<close> fails with an InvalidParameter error and that every
  call with \<open>0 < angular_step < 2 * pi\<close> succeeds. The function checks nothing:
  with the angular step 8 it returns the two contacts of \<open>theta = 0\<close>, and with
  the angular step -1 the empty list; and with the angular step \<open>2 powr -64\<close>,
  inside the range, it fails, with the ValueError of \<^verbatim>\<open>arange\<close>.
\<close>

theorem angular_step_out_of_range_accepted:
  "2 * pi \<le> 8 \<and>
   \<not> isl (generate_staircase ideal_numpy 1.4 8 1.4 0.5 0.7 0.2 0.1
            \<lparr>draws = (\<lambda>i. 1 / 4), consumed = 0\<rparr>) \<and>
   length (fst (projr (generate_staircase ideal_numpy 1.4 8 1.4 0.5 0.7 0.2 0.1
                         \<lparr>draws = (\<lambda>i. 1 / 4), consumed = 0\<rparr>))) = 2 \<and>
   (- 1::real) \<le> 0 \<and>
   returned (generate_staircase ideal_numpy 1.4 (- 1) 1.4 0.5 0.7 0.2 0.1
               \<lparr>draws = (\<lambda>i. 1 / 4), consumed = 0\<rparr>) = Inr [] \<and>
   (0::real) < 1 / 2 ^ 64 \<and> 1 / 2 ^ 64 < 2 * pi \<and>
   isl (generate_staircase ideal_numpy 1.4 (1 / 2 ^ 64) 1.4 0.5 0.7 0.2 0.1
          \<lparr>draws = (\<lambda>i. 1 / 4), consumed = 0\<rparr>)"
proof -
  let ?g = "\<lparr>draws = (\<lambda>i. 1 / 4), consumed = 0\<rparr>"
  have b: "2 * pi \<le> 8" using pi_less_4 by simp
  have t0: "(0::real) < 1 / 2 ^ 64" by simp
  have "(1::real) / 2 ^ 64 < 1" by simp
  also have "\<dots> < 2 * pi" using pi_gt_3 by simp
  finally have t1: "(1::real) / 2 ^ 64 < 2 * pi" .
  have t2: "isl (generate_staircase ideal_numpy 1.4 (1 / 2 ^ 64) 1.4 0.5 0.7 0.2 0.1 ?g)"
    by (simp only: ideal_tiny_step sum.disc)
  have n8: "\<lceil>fdiv ideal_numpy (2 * pi) 8\<rceil> = 1"
    and a8: "alloc ideal_numpy \<lceil>fdiv ideal_numpy (2 * pi) 8\<rceil> = None"
    using ideal_large_step by blast+
  have nz8: "(8::real) \<noteq> 0" by simp
  have nz1: "(- 1::real) \<noteq> 0" by simp
  have n1: "\<lceil>fdiv ideal_numpy (2 * pi) (- 1)\<rceil> \<le> 0"
    using ideal_negative_step by (simp only: ceiling_le_zero)
  have "\<not> isl (generate_staircase ideal_numpy 1.4 8 1.4 0.5 0.7 0.2 0.1 ?g)"
    using generate_staircase_projr[OF nz8 disjI2[OF a8], where r = "1.4" and h = "1.4"
            and ro = "0.5" and f = "0.7" and sx = "0.2" and sy = "0.1" and g = ?g]
    by (metis sum.disc(2))
  moreover have "length (fst (projr (generate_staircase ideal_numpy 1.4 8 1.4 0.5 0.7 0.2 0.1
                         ?g))) = 2"
    unfolding generate_staircase_length[OF nz8 disjI2[OF a8]] n8 by simp
  moreover have "returned (generate_staircase ideal_numpy 1.4 (- 1) 1.4 0.5 0.7 0.2 0.1 ?g)
                   = Inr []"
    using n1 by (simp add: generate_staircase_Inr[OF nz1 disjI1[OF n1]] returned_def)
  ultimately have "2 * pi \<le> 8 \<and>
   \<not> isl (generate_staircase ideal_numpy 1.4 8 1.4 0.5 0.7 0.2 0.1 ?g) \<and>
   length (fst (projr (generate_staircase ideal_numpy 1.4 8 1.4 0.5 0.7 0.2 0.1 ?g))) = 2 \<and>
   (- 1::real) \<le> 0 \<and>
   returned (generate_staircase ideal_numpy 1.4 (- 1) 1.4 0.5 0.7 0.2 0.1 ?g) = Inr []"
    using b by simp
  then show ?thesis using t0 t1 t2 by blast
qed

text \<open>
  Claim C4, amended. \<^verbatim>\<open>generate_staircase\<close> does not validate its parameters
  and raises no InvalidParameter error; what happens is decided by \<^verbatim>\<open>arange\<close>
  and the quotient \<^verbatim>\<open>2*pi / angular_step\<close> it computes. A step of zero fails
  with the ZeroDivisionError of that division. A step whose quotient is not
  positive (a negative step) succeeds with the empty list. A step whose quotient
  is positive and at most one (a step of \<open>2 * pi\<close> or more) succeeds with the
  two contacts of \<open>theta = 0\<close>. Any other step succeeds when \<^verbatim>\<open>arange\<close> can
  create its array and fails with the exception of \<^verbatim>\<open>arange\<close> when it cannot.
\<close>

theorem generate_staircase_no_validation:
  "(angular_step = 0 \<longrightarrow>
      generate_staircase np radius angular_step height roughness friction_coef
        step_dim_x step_dim_y g = Inl ZeroDivisionError) \<and>
   (angular_step \<noteq> 0 \<and> fdiv np (2 * pi) angular_step \<le> 0 \<longrightarrow>
      returned (generate_staircase np radius angular_step height roughness friction_coef
                  step_dim_x step_dim_y g) = Inr []) \<and>
   (angular_step \<noteq> 0 \<and> 0 < fdiv np (2 * pi) angular_step \<and>
    fdiv np (2 * pi) angular_step \<le> 1 \<and> alloc np 1 = None \<longrightarrow>
      (\<exists>steps g'. generate_staircase np radius angular_step height roughness friction_coef
                     step_dim_x step_dim_y g = Inr (steps, g') \<and> length steps = 2)) \<and>
   (angular_step \<noteq> 0 \<and> 0 < fdiv np (2 * pi) angular_step \<and>
    alloc np \<lceil>fdiv np (2 * pi) angular_step\<rceil> = None \<longrightarrow>
      (\<exists>steps g'. generate_staircase np radius angular_step height roughness friction_coef
                     step_dim_x step_dim_y g = Inr (steps, g'))) \<and>
   (angular_step \<noteq> 0 \<and> 0 < fdiv np (2 * pi) angular_step \<and>
    alloc np \<lceil>fdiv np (2 * pi) angular_step\<rceil> = Some e \<longrightarrow>
      generate_staircase np radius angular_step height roughness friction_coef
        step_dim_x step_dim_y g = Inl e)"
proof (intro conjI impI)
  assume "angular_step = 0"
  then show "generate_staircase np radius angular_step height roughness friction_coef
        step_dim_x step_dim_y g = Inl ZeroDivisionError"
    by (simp add: generate_staircase_def arange_def)
next
  assume h: "angular_step \<noteq> 0 \<and> fdiv np (2 * pi) angular_step \<le> 0"
  then have nz: "angular_step \<noteq> 0" by simp
  from h have n: "\<lceil>fdiv np (2 * pi) angular_step\<rceil> \<le> 0" by (simp only: ceiling_le_zero)
  show "returned (generate_staircase np radius angular_step height roughness friction_coef
                  step_dim_x step_dim_y g) = Inr []"
    using n by (simp add: generate_staircase_Inr[OF nz disjI1[OF n]] returned_def)
next
  assume h: "angular_step \<noteq> 0 \<and> 0 < fdiv np (2 * pi) angular_step \<and>
    fdiv np (2 * pi) angular_step \<le> 1 \<and> alloc np 1 = None"
  then have nz: "angular_step \<noteq> 0" by simp
  from h have n: "\<lceil>fdiv np (2 * pi) angular_step\<rceil> = 1" by (intro ceiling_unit) simp_all
  from h have ok: "\<lceil>fdiv np (2 * pi) angular_step\<rceil> \<le> 0 \<or>
      alloc np \<lceil>fdiv np (2 * pi) angular_step\<rceil> = None"
    by (simp only: n) simp
  let ?r = "generate_staircase np radius angular_step height roughness friction_coef
              step_dim_x step_dim_y g"
  have "?r = Inr (fst (projr ?r),
          g\<lparr>consumed := consumed g + 6 * nat \<lceil>fdiv np (2 * pi) angular_step\<rceil>\<rparr>)"
    by (rule generate_staircase_projr[OF nz ok])
  moreover have "length (fst (projr ?r)) = 2"
    unfolding generate_staircase_length[OF nz ok] n by simp
  ultimately show "\<exists>steps g'. ?r = Inr (steps, g') \<and> length steps = 2" by metis
next
  assume h: "angular_step \<noteq> 0 \<and> 0 < fdiv np (2 * pi) angular_step \<and>
    alloc np \<lceil>fdiv np (2 * pi) angular_step\<rceil> = None"
  then have nz: "angular_step \<noteq> 0"
    and ok: "alloc np \<lceil>fdiv np (2 * pi) angular_step\<rceil> = None" by simp_all
  show "\<exists>steps g'. generate_staircase np radius angular_step height roughness friction_coef
                     step_dim_x step_dim_y g = Inr (steps, g')"
    using generate_staircase_projr[OF nz disjI2[OF ok]] by blast
next
  assume h: "angular_step \<noteq> 0 \<and> 0 < fdiv np (2 * pi) angular_step \<and>
    alloc np \<lceil>fdiv np (2 * pi) angular_step\<rceil> = Some e"
  then have nz: "angular_step \<noteq> 0"
    and bad: "alloc np \<lceil>fdiv np (2 * pi) angular_step\<rceil> = Some e" by simp_all
  from h have pos: "0 < \<lceil>fdiv np (2 * pi) angular_step\<rceil>" by (simp only: zero_less_ceiling)
  show "generate_staircase np radius angular_step height roughness friction_coef
        step_dim_x step_dim_y g = Inl e"
    by (rule generate_staircase_Inl[OF nz pos bad])
qed

theorem generate_staircase_no_validation_examples:
  "generate_staircase ideal_numpy 1.4 0 1.4 0.5 0.7 0.2 0.1
     \<lparr>draws = (\<lambda>i. 1 / 4), consumed = 0\<rparr> = Inl ZeroDivisionError \<and>
   fdiv ideal_numpy (2 * pi) (- 1) \<le> 0 \<and>
   returned (generate_staircase ideal_numpy 1.4 (- 1) 1.4 0.5 0.7 0.2 0.1
               \<lparr>draws = (\<lambda>i. 1 / 4), consumed = 0\<rparr>) = Inr [] \<and>
   0 < fdiv ideal_numpy (2 * pi) 8 \<and> fdiv ideal_numpy (2 * pi) 8 \<le> 1 \<and>
   (\<exists>steps g'. generate_staircase ideal_numpy 1.4 8 1.4 0.5 0.7 0.2 0.1
                  \<lparr>draws = (\<lambda>i. 1 / 4), consumed = 0\<rparr> = Inr (steps, g') \<and>
                length steps = 2) \<and>
   0 < fdiv ideal_numpy (2 * pi) 0.5 \<and>
   alloc ideal_numpy \<lceil>fdiv ideal_numpy (2 * pi) 0.5\<rceil> = None \<and>
   (\<exists>steps g'. generate_staircase ideal_numpy 1.4 0.5 1.4 0.5 0.7 0.2 0.1
                  \<lparr>draws = (\<lambda>i. 1 / 4), consumed = 0\<rparr> = Inr (steps, g')) \<and>
   0 < fdiv ideal_numpy (2 * pi) (1 / 2 ^ 64) \<and>
   alloc ideal_numpy \<lceil>fdiv ideal_numpy (2 * pi) (1 / 2 ^ 64)\<rceil> =
     Some (ValueError ''Maximum allowed size exceeded'') \<and>
   generate_staircase ideal_numpy 1.4 (1 / 2 ^ 64) 1.4 0.5 0.7 0.2 0.1
     \<lparr>draws = (\<lambda>i. 1 / 4), consumed = 0\<rparr> =
     Inl (ValueError ''Maximum allowed size exceeded'')"
proof -
  let ?g = "\<lparr>draws = (\<lambda>i. 1 / 4), consumed = 0\<rparr>"
  note t = generate_staircase_no_validation[where radius = "1.4" and height = "1.4"
         and roughness = "0.5" and friction_coef = "0.7" and step_dim_x = "0.2"
         and step_dim_y = "0.1" and g = ?g and np = ideal_numpy]
  have q1: "fdiv ideal_numpy (2 * pi) (- 1) \<le> 0" by (rule ideal_negative_step)
  have q8a: "0 < fdiv ideal_numpy (2 * pi) 8"
    using pi_gt_zero by (simp add: ideal_numpy_fdiv)
  have q8b: "fdiv ideal_numpy (2 * pi) 8 \<le> 1"
    using pi_less_4 by (simp add: ideal_numpy_fdiv)
  have a1: "alloc ideal_numpy 1 = None" by (simp add: ideal_numpy_alloc_None)
  have nz1: "(- 1::real) \<noteq> 0" and nz8: "(8::real) \<noteq> 0" by simp_all
  from t[where angular_step = 0]
  have 1: "generate_staircase ideal_numpy 1.4 0 1.4 0.5 0.7 0.2 0.1 ?g = Inl ZeroDivisionError"
    by blast
  from t[where angular_step = "- 1"] q1 nz1
  have 2: "returned (generate_staircase ideal_numpy 1.4 (- 1) 1.4 0.5 0.7 0.2 0.1 ?g) = Inr []"
    by blast
  from t[where angular_step = 8] q8a q8b a1 nz8
  have 3: "\<exists>steps g'. generate_staircase ideal_numpy 1.4 8 1.4 0.5 0.7 0.2 0.1 ?g =
             Inr (steps, g') \<and> length steps = 2"
    by blast
  have nz5: "(0.5::real) \<noteq> 0" by simp
  have q5: "0 < fdiv ideal_numpy (2 * pi) 0.5"
    using pi_gt_zero by (simp add: ideal_numpy_fdiv)
  have a5: "alloc ideal_numpy \<lceil>fdiv ideal_numpy (2 * pi) 0.5\<rceil> = None"
    using ideal_scenario_angles by blast
  from t[where angular_step = "0.5"] nz5 q5 a5
  have 4: "\<exists>steps g'. generate_staircase ideal_numpy 1.4 0.5 1.4 0.5 0.7 0.2 0.1 ?g =
             Inr (steps, g')"
    by blast
  have nzt: "(1::real) / 2 ^ 64 \<noteq> 0" by simp
  have qt: "0 < fdiv ideal_numpy (2 * pi) (1 / 2 ^ 64)"
    and at: "alloc ideal_numpy \<lceil>fdiv ideal_numpy (2 * pi) (1 / 2 ^ 64)\<rceil> =
     Some (ValueError ''Maximum allowed size exceeded'')"
    using ideal_tiny_quotient by blast+
  from t[where angular_step = "1 / 2 ^ 64" and e = "ValueError ''Maximum allowed size exceeded''"]
    nzt qt at
  have 5: "generate_staircase ideal_numpy 1.4 (1 / 2 ^ 64) 1.4 0.5 0.7 0.2 0.1 ?g =
     Inl (ValueError ''Maximum allowed size exceeded'')"
    by blast
  from 1 2 3 4 5 q1 q8a q8b q5 a5 qt at show ?thesis by blast
qed

subsection \<open>Zero roughness\<close>

text \<open>
  Claim C9 says that with \<open>roughness = 0\<close> every contact has the orientation
  \<open>(0, 0, theta + pi/2)\<close> for its angular position \<open>theta\<close>. A right contact
  stands at the angle \<open>theta + angular_step / 2\<close> and has the yaw of the left
  contact of its iteration: with the angular step 1 the first right contact
  stands at the angle \<open>1/2\<close> and its orientation is \<open>(0, 0, pi/2)\<close>.
\<close>

theorem smooth_right_surface_yaw_of_left:
  "pos (fst (projr (generate_staircase ideal_numpy 1 1 1 0 0.7 0.2 0.1
                      \<lparr>draws = (\<lambda>i. 1 / 4), consumed = 0\<rparr>)) ! 1) =
     (1.3 * 1 * cos (0 + 1 / 2), 1.3 * 1 * sin (0 + 1 / 2), 1 + 0.5 * 1 * sin (0 + 1 / 2)) \<and>
   rpy (fst (projr (generate_staircase ideal_numpy 1 1 1 0 0.7 0.2 0.1
                      \<lparr>draws = (\<lambda>i. 1 / 4), consumed = 0\<rparr>)) ! 1) =
     (0, 0, 0 + pi / 2) \<and>
   rpy (fst (projr (generate_staircase ideal_numpy 1 1 1 0 0.7 0.2 0.1
                      \<lparr>draws = (\<lambda>i. 1 / 4), consumed = 0\<rparr>)) ! 1) \<noteq>
     (0, 0, (0 + 1 / 2) + pi / 2)"
proof -
  have h1: "(1::real) \<noteq> 0" by simp
  have n: "\<lceil>fdiv ideal_numpy (2 * pi) 1\<rceil> = 7"
    and h2: "alloc ideal_numpy \<lceil>fdiv ideal_numpy (2 * pi) 1\<rceil> = None"
    using ideal_unit_step by blast+
  have h3: "0 < nat \<lceil>fdiv ideal_numpy (2 * pi) 1\<rceil>" unfolding n by simp
  show ?thesis
    using generate_staircase_nth_right[OF h1 h2 h3, where r = 1 and h = 1 and ro = 0
            and f = "0.7" and sx = "0.2" and sy = "0.1"
            and g = "\<lparr>draws = (\<lambda>i. 1 / 4), consumed = 0\<rparr>"]
    by simp
qed

text \<open>
  Claim C9, amended. With \<open>roughness = 0\<close> the result of
  \<^verbatim>\<open>generate_staircase\<close> does not depend on the random source at all, and both
  contacts of iteration \<open>k\<close> have the orientation \<open>(0, 0, theta + pi/2)\<close> for the
  loop's angle \<open>theta = k * angular_step\<close>: the angular position of the left
  contact, and \<open>angular_step / 2\<close> before that of the right one.
\<close>

theorem generate_staircase_smooth:
  "returned (generate_staircase np radius angular_step height 0 friction_coef
               step_dim_x step_dim_y g1) =
   returned (generate_staircase np radius angular_step height 0 friction_coef
               step_dim_x step_dim_y g2) \<and>
   (angular_step \<noteq> 0 \<and> alloc np \<lceil>fdiv np (2 * pi) angular_step\<rceil> = None \<longrightarrow>
    (\<forall>k < nat \<lceil>fdiv np (2 * pi) angular_step\<rceil>.
       \<exists>steps g'.
         generate_staircase np radius angular_step height 0 friction_coef
           step_dim_x step_dim_y g1 = Inr (steps, g') \<and>
         rpy (steps ! (2 * k)) = (0, 0, real k * angular_step + pi / 2) \<and>
         rpy (steps ! (2 * k + 1)) = (0, 0, real k * angular_step + pi / 2)))"
proof (intro conjI impI allI)
  show "returned (generate_staircase np radius angular_step height 0 friction_coef
               step_dim_x step_dim_y g1) =
        returned (generate_staircase np radius angular_step height 0 friction_coef
               step_dim_x step_dim_y g2)"
    by (rule generate_staircase_smooth_any)
next
  fix k
  assume h: "angular_step \<noteq> 0 \<and> alloc np \<lceil>fdiv np (2 * pi) angular_step\<rceil> = None"
    and k: "k < nat \<lceil>fdiv np (2 * pi) angular_step\<rceil>"
  from h have nz: "angular_step \<noteq> 0"
    and ok: "alloc np \<lceil>fdiv np (2 * pi) angular_step\<rceil> = None" by simp_all
  let ?r = "generate_staircase np radius angular_step height 0 friction_coef
              step_dim_x step_dim_y g1"
  have "?r = Inr (fst (projr ?r),
      g1\<lparr>consumed := consumed g1 + 6 * nat \<lceil>fdiv np (2 * pi) angular_step\<rceil>\<rparr>)"
    by (rule generate_staircase_projr[OF nz disjI2[OF ok]])
  moreover have "rpy (fst (projr ?r) ! (2 * k)) = (0, 0, real k * angular_step + pi / 2)"
    by (simp add: generate_staircase_nth_left[OF nz ok k])
  moreover have "rpy (fst (projr ?r) ! (2 * k + 1)) = (0, 0, real k * angular_step + pi / 2)"
    using generate_staircase_nth_right[OF nz ok k, where r = radius and h = height
            and ro = 0 and f = friction_coef and sx = step_dim_x and sy = step_dim_y
            and g = g1]
    by simp
  ultimately show "\<exists>steps g'. ?r = Inr (steps, g') \<and>
         rpy (steps ! (2 * k)) = (0, 0, real k * angular_step + pi / 2) \<and>
         rpy (steps ! (2 * k + 1)) = (0, 0, real k * angular_step + pi / 2)"
    by metis
qed

theorem generate_staircase_smooth_example:
  "returned (generate_staircase ideal_numpy 1.4 8 1.4 0 0.7 0.2 0.1
               \<lparr>draws = (\<lambda>i. 1 / 4), consumed = 0\<rparr>) =
   returned (generate_staircase ideal_numpy 1.4 8 1.4 0 0.7 0.2 0.1
               \<lparr>draws = (\<lambda>i. 3 / 4), consumed = 5\<rparr>) \<and>
   (8::real) \<noteq> 0 \<and> alloc ideal_numpy \<lceil>fdiv ideal_numpy (2 * pi) 8\<rceil> = None \<and>
   0 < nat \<lceil>fdiv ideal_numpy (2 * pi) 8\<rceil> \<and>
   (\<exists>steps g'.
      generate_staircase ideal_numpy 1.4 8 1.4 0 0.7 0.2 0.1
        \<lparr>draws = (\<lambda>i. 1 / 4), consumed = 0\<rparr> = Inr (steps, g') \<and>
      rpy (steps ! 0) = (0, 0, pi / 2) \<and> rpy (steps ! 1) = (0, 0, pi / 2))"
proof -
  have n: "\<lceil>fdiv ideal_numpy (2 * pi) 8\<rceil> = 1"
    and ok: "alloc ideal_numpy \<lceil>fdiv ideal_numpy (2 * pi) 8\<rceil> = None"
    using ideal_large_step by blast+
  have k: "0 < nat \<lceil>fdiv ideal_numpy (2 * pi) 8\<rceil>" unfolding n by simp
  have nz: "(8::real) \<noteq> 0" by simp
  note t = generate_staircase_smooth[where np = ideal_numpy and angular_step = 8
         and radius = "1.4" and height = "1.4" and friction_coef = "0.7"
         and step_dim_x = "0.2" and step_dim_y = "0.1"
         and ?g1.0 = "\<lparr>draws = (\<lambda>i. 1 / 4), consumed = 0\<rparr>"
         and ?g2.0 = "\<lparr>draws = (\<lambda>i. 3 / 4), consumed = 5\<rparr>"]
  from t have same: "returned (generate_staircase ideal_numpy 1.4 8 1.4 0 0.7 0.2 0.1
               \<lparr>draws = (\<lambda>i. 1 / 4), consumed = 0\<rparr>) =
              returned (generate_staircase ideal_numpy 1.4 8 1.4 0 0.7 0.2 0.1
               \<lparr>draws = (\<lambda>i. 3 / 4), consumed = 5\<rparr>)"
    by blast
  from t nz ok k have "\<exists>steps g'.
      generate_staircase ideal_numpy 1.4 8 1.4 0 0.7 0.2 0.1
        \<lparr>draws = (\<lambda>i. 1 / 4), consumed = 0\<rparr> = Inr (steps, g') \<and>
      rpy (steps ! (2 * 0)) = (0, 0, real 0 * 8 + pi / 2) \<and>
      rpy (steps ! (2 * 0 + 1)) = (0, 0, real 0 * 8 + pi / 2)"
    by blast
  then have each: "\<exists>steps g'.
      generate_staircase ideal_numpy 1.4 8 1.4 0 0.7 0.2 0.1
        \<lparr>draws = (\<lambda>i. 1 / 4), consumed = 0\<rparr> = Inr (steps, g') \<and>
      rpy (steps ! 0) = (0, 0, pi / 2) \<and> rpy (steps ! 1) = (0, 0, pi / 2)"
    by simp
  from same nz ok k each show ?thesis by blast
qed

subsection \<open>Dashing a list of handles\<close>

lemma dash_loop_length: "length (dash_loop idx hs) = length hs"
  by (induction idx arbitrary: hs) simp_all

lemma dash_loop_nth:
  "j < length hs \<Longrightarrow>
   dash_loop idx hs ! j = (if j \<in> set idx \<and> j mod 2 = 0 then None else hs ! j)"
proof (induction idx arbitrary: hs)
  case Nil
  show ?case by simp
next
  case (Cons i idx)
  show ?case
  proof (cases "i mod 2 = 0")
    case True
    with Cons.prems Cons.IH[of "hs[i := None]"] show ?thesis
      by (cases "j = i") auto
  next
    case False
    with Cons.prems Cons.IH[of hs] show ?thesis by auto
  qed
qed

text \<open>
  Claim C10. For every list of drawing handles, \<^verbatim>\<open>dash_graph_handles\<close> (the
  module-level function, and the method of \<^verbatim>\<open>TrajectoryDrawer\<close> on
  \<^verbatim>\<open>self.handles\<close>) sets the element at every even index to \<^verbatim>\<open>None\<close> and leaves
  the length of the list and every element at an odd index unchanged; the method
  changes no other attribute of the drawer.
\<close>

theorem dash_graph_handles_even_None:
  "length (dash_graph_handles hs) = length hs \<and>
   (\<forall>i < length hs. dash_graph_handles hs ! i = (if i mod 2 = 0 then None else hs ! i)) \<and>
   length (handles (TrajectoryDrawer_dash_graph_handles self)) = length (handles self) \<and>
   (\<forall>i < length (handles self).
      handles (TrajectoryDrawer_dash_graph_handles self) ! i =
        (if i mod 2 = 0 then None else handles self ! i)) \<and>
   TrajectoryDrawer_dash_graph_handles self =
     self\<lparr>handles := handles (TrajectoryDrawer_dash_graph_handles self)\<rparr>"
  by (simp add: dash_graph_handles_def TrajectoryDrawer_dash_graph_handles_def
        dash_loop_length dash_loop_nth)

theorem dash_graph_handles_even_None_example:
  "dash_graph_handles [Some (10::nat), Some 11, Some 12, Some 13, Some 14] =
     [None, Some 11, None, Some 13, None]"
proof -
  let ?hs = "[Some (10::nat), Some 11, Some 12, Some 13, Some 14]"
  let ?self = "\<lparr>body = (), color = CHR ''b'', handles = ?hs, last_pos = (0, 0, 0),
                linestyle = CHR ''-'', linewidth = 3, lr = None\<rparr>"
  from dash_graph_handles_even_None[of ?hs ?self]
  have len: "length (dash_graph_handles ?hs) = 5"
    and nth: "\<And>i. i < 5 \<Longrightarrow> dash_graph_handles ?hs ! i = (if i mod 2 = 0 then None else ?hs ! i)"
    by simp_all
  show ?thesis
  proof (rule nth_equalityI)
    show "length (dash_graph_handles ?hs) = length [None, Some 11, None, Some 13, None]"
      using len by simp
  next
    fix i assume "i < length (dash_graph_handles ?hs)"
    then have "i < 5" using len by simp
    then consider "i = 0" | "i = 1" | "i = 2" | "i = 3" | "i = 4" by linarith
    then show "dash_graph_handles ?hs ! i = [None, Some 11, None, Some 13, None] ! i"
      using nth[of i] by cases simp_all
  qed
qed

subsection \<open>The callback and the solver's thread\<close>















subsection \<open>No supporting forces\<close>

text \<open>
  Claim C6. On a tick in which \<^verbatim>\<open>find_supporting_forces\<close> reports that nothing
  supports the wrench (\<^verbatim>\<open>None\<close>, or an empty list), \<^verbatim>\<open>ForceDrawer.on_tick\<close>
  clears its force handles and sets the alarm colour of the background, and
  draws no force; the alarm colour is still showing at the end of the tick unless
  the two clock readings of the tick are more than 0.2 seconds apart. On a tick
  with supporting forces it draws each of them and does not set the alarm colour.
\<close>

theorem ForceDrawer_no_support_alarm:
  "(find_supporting_forces
      (hstack (smul robot_mass (vminus comdd gravity)) (0, 0, 0)) com_p robot_mass 10
      \<in> {None, Some []} \<longrightarrow>
    force_drawer.handles
      (fst (ForceDrawer_on_tick find_supporting_forces draw_force comdd gravity com_p robot_mass
              now1 now2 self viewer)) = [] \<and>
    snd (ForceDrawer_on_tick find_supporting_forces draw_force comdd gravity com_p robot_mass
           now1 now2 self viewer) =
      viewer @ (if now2 - now1 > 0.2 then [(0.8, 0.4, 0.4), (0.6, 0.6, 0.8)]
                else [(0.8, 0.4, 0.4)])) \<and>
   (find_supporting_forces
      (hstack (smul robot_mass (vminus comdd gravity)) (0, 0, 0)) com_p robot_mass 10
      = Some (cf # cfs) \<longrightarrow>
    force_drawer.handles
      (fst (ForceDrawer_on_tick find_supporting_forces draw_force comdd gravity com_p robot_mass
              now1 now2 self viewer)) =
      map (\<lambda>(c, fc). draw_force c fc (force_scale self)) (cf # cfs) \<and>
    (0.8, 0.4, 0.4) \<notin> set (drop (length viewer)
      (snd (ForceDrawer_on_tick find_supporting_forces draw_force comdd gravity com_p robot_mass
              now1 now2 self viewer))))"
  by (auto simp: ForceDrawer_on_tick_def Let_def split: option.splits list.splits)

theorem ForceDrawer_no_support_alarm_example:
  "force_drawer.handles
      (fst (ForceDrawer_on_tick (\<lambda>wrench p m margin. None) (\<lambda>c fc scale. (c, fc))
              (0, 0, 0) (0, 0, - 9.81) (0, 0, 1) 39 100 100
              \<lparr>last_bkgnd_switch = None, handles = [((1::nat), (0, 0, 5))], force_scale = 0.0025\<rparr>
              [(0.6, 0.6, 0.8)])) = [] \<and>
   snd (ForceDrawer_on_tick (\<lambda>wrench p m margin. None) (\<lambda>c fc scale. (c, fc))
              (0, 0, 0) (0, 0, - 9.81) (0, 0, 1) 39 100 100
              \<lparr>last_bkgnd_switch = None, handles = [((1::nat), (0, 0, 5))], force_scale = 0.0025\<rparr>
              [(0.6, 0.6, 0.8)]) = [(0.6, 0.6, 0.8), (0.8, 0.4, 0.4)] \<and>
   force_drawer.handles
      (fst (ForceDrawer_on_tick (\<lambda>wrench p m margin. Some [(2, (0, 0, 382.59))])
              (\<lambda>c fc scale. (c, fc))
              (0, 0, 0) (0, 0, - 9.81) (0, 0, 1) 39 100 100
              \<lparr>last_bkgnd_switch = None, handles = [((1::nat), (0, 0, 5))], force_scale = 0.0025\<rparr>
              [(0.6, 0.6, 0.8)])) = [(2, (0, 0, 382.59))] \<and>
   snd (ForceDrawer_on_tick (\<lambda>wrench p m margin. Some [(2, (0, 0, 382.59))])
              (\<lambda>c fc scale. (c, fc))
              (0, 0, 0) (0, 0, - 9.81) (0, 0, 1) 39 100 100
              \<lparr>last_bkgnd_switch = None, handles = [((1::nat), (0, 0, 5))], force_scale = 0.0025\<rparr>
              [(0.6, 0.6, 0.8)]) = [(0.6, 0.6, 0.8)]"
proof -
  let ?self = "\<lparr>last_bkgnd_switch = None, handles = [((1::nat), (0::real, 0::real, 5::real))],
                force_scale = 0.0025\<rparr>"
  note a = ForceDrawer_no_support_alarm[where find_supporting_forces = "\<lambda>wrench p m margin. None"
      and draw_force = "\<lambda>c fc scale. (c, fc)" and comdd = "(0, 0, 0)" and gravity = "(0, 0, - 9.81)"
      and com_p = "(0, 0, 1)" and robot_mass = 39 and ?now1.0 = 100 and ?now2.0 = 100
      and self = ?self and viewer = "[(0.6, 0.6, 0.8)]"]
  note b = ForceDrawer_no_support_alarm[where
      find_supporting_forces = "\<lambda>wrench p m margin. Some [(2, (0, 0, 382.59))]"
      and draw_force = "\<lambda>c fc scale. (c, fc)" and comdd = "(0, 0, 0)" and gravity = "(0, 0, - 9.81)"
      and com_p = "(0, 0, 1)" and robot_mass = 39 and ?now1.0 = 100 and ?now2.0 = 100
      and self = ?self and viewer = "[(0.6, 0.6, 0.8)]" and cf = "(2, (0, 0, 382.59))" and cfs = "[]"]
  have feasible: "snd (ForceDrawer_on_tick (\<lambda>wrench p m margin. Some [(2, (0, 0, 382.59))])
              (\<lambda>c fc scale. (c, fc))
              (0, 0, 0) (0, 0, - 9.81) (0, 0, 1) 39 100 100 ?self
              [(0.6, 0.6, 0.8)]) = [(0.6, 0.6, 0.8)]"
    by (simp add: ForceDrawer_on_tick_def)
  from a b feasible show ?thesis by simp
qed

subsection \<open>A failing process\<close>

lemma tick_processes_append:
  "tick_processes (ps @ qs) st = tick_processes qs (tick_processes ps st)"
proof (induction ps arbitrary: st)
  case Nil
  show ?case by (cases st) simp
next
  case (Cons p ps)
  obtain w failures names where st: "st = (w, failures, names)" by (cases st) auto
  show ?case unfolding st by (simp add: Cons.IH split: prod.splits option.splits)
qed

lemma tick_processes_invoked:
  "snd (snd (tick_processes ps (w, failures, names))) = names @ map process_name ps"
  by (induction ps arbitrary: w failures names) (simp_all split: prod.splits option.splits)

lemma tick_processes_world:
  "fst (tick_processes ps (w, failures, names)) = fst (tick_processes ps (w, [], []))"
proof (induction ps arbitrary: w failures names)
  case Nil
  show ?case by simp
next
  case (Cons p ps)
  obtain w' r where p: "on_tick p w = (w', r)" by (cases "on_tick p w") auto
  show ?case
    using Cons.IH[of w' failures "names @ [process_name p]"]
      Cons.IH[of w' "failures @ [process_name p @ '': '' @ str (the r)]" "names @ [process_name p]"]
      Cons.IH[of w' "[]" "[process_name p]"]
      Cons.IH[of w' "[process_name p @ '': '' @ str (the r)]" "[process_name p]"]
    by (cases r) (simp_all add: p)
qed

lemma tick_processes_log_grows:
  "\<exists>more. fst (snd (tick_processes ps (w, failures, names))) = failures @ more"
proof (induction ps arbitrary: w failures names)
  case Nil
  show ?case by simp
next
  case (Cons p ps)
  obtain w' r where p: "on_tick p w = (w', r)" by (cases "on_tick p w") auto
  show ?case
  proof (cases r)
    case None
    then show ?thesis using Cons.IH[of w' failures "names @ [process_name p]"] by (simp add: p)
  next
    case (Some e)
    from Cons.IH[of w' "failures @ [process_name p @ '': '' @ str e]" "names @ [process_name p]"]
    obtain more where "fst (snd (tick_processes ps
        (w', failures @ [process_name p @ '': '' @ str e], names @ [process_name p]))) =
        (failures @ [process_name p @ '': '' @ str e]) @ more" by blast
    then show ?thesis by (simp add: p Some)
  qed
qed

lemma tick_processes_failure:
  assumes "fst (tick_processes before (w, failures, names)) = w1"
    and "on_tick p w1 = (w2, Some e)"
  shows "(process_name p @ '': '' @ str e)
           \<in> set (fst (snd (tick_processes (before @ p # after) (w, failures, names)))) \<and>
         fst (tick_processes (before @ p # after) (w, failures, names)) =
           fst (tick_processes after (w2, [], []))"
proof -
  obtain f1 n1 where b: "tick_processes before (w, failures, names) = (w1, f1, n1)"
    using assms(1) by (cases "tick_processes before (w, failures, names)") auto
  have eq: "tick_processes (before @ p # after) (w, failures, names) =
        tick_processes after (w2, f1 @ [process_name p @ '': '' @ str e], n1 @ [process_name p])"
    by (simp add: tick_processes_append b assms(2))
  obtain more where "fst (snd (tick_processes after
      (w2, f1 @ [process_name p @ '': '' @ str e], n1 @ [process_name p]))) =
      (f1 @ [process_name p @ '': '' @ str e]) @ more"
    using tick_processes_log_grows[of after w2 "f1 @ [process_name p @ '': '' @ str e]"
            "n1 @ [process_name p]"]
    by blast
  then have "(process_name p @ '': '' @ str e)
           \<in> set (fst (snd (tick_processes (before @ p # after) (w, failures, names))))"
    unfolding eq by simp
  moreover have "fst (tick_processes (before @ p # after) (w, failures, names)) =
           fst (tick_processes after (w2, [], []))"
    unfolding eq by (rule tick_processes_world)
  ultimately show ?thesis by simp
qed

lemma tick_fields:
  "processes (fst (tick (sim, w))) = processes sim \<and>
   extras (fst (tick (sim, w))) = extras sim \<and>
   tick_count (fst (tick (sim, w))) = tick_count sim + 1 \<and>
   invoked (fst (tick (sim, w))) = invoked sim @ map process_name (processes sim @ extras sim)"
proof -
  obtain w' failures names where
    t: "tick_processes (processes sim @ extras sim) (w, failure_log sim, invoked sim) =
          (w', failures, names)"
    by (cases "tick_processes (processes sim @ extras sim) (w, failure_log sim, invoked sim)") auto
  have "names = invoked sim @ map process_name (processes sim @ extras sim)"
    using tick_processes_invoked[of "processes sim @ extras sim" w "failure_log sim" "invoked sim"]
    by (simp add: t)
  then show ?thesis by (simp add: tick_def t)
qed

lemma step_invoked:
  "invoked (fst (step n (sim, w))) =
     invoked sim @ concat (replicate n (map process_name (processes sim @ extras sim))) \<and>
   tick_count (fst (step n (sim, w))) = tick_count sim + n"
proof (induction n arbitrary: sim w)
  case 0
  show ?case by simp
next
  case (Suc n)
  obtain sim' w' where t: "tick (sim, w) = (sim', w')" by (cases "tick (sim, w)") auto
  have f: "processes sim' = processes sim" "extras sim' = extras sim"
    "tick_count sim' = tick_count sim + 1"
    "invoked sim' = invoked sim @ map process_name (processes sim @ extras sim)"
    using tick_fields[of sim w] by (simp_all add: t)
  show ?case using Suc.IH[of sim' w'] by (simp add: t f)
qed

lemma TubeDrawer_on_tick_unfold:
  assumes "draw_primal R tube self = (self1, e1)"
    and "draw_dual R tube com_p self1 = (self2, e2)"
    and "draw_comdd R preview_comdd self2 = (self3, e3)"
  shows "TubeDrawer_on_tick R tube com_p preview_comdd (self, out) =
     ((self3,
       out @
       (case e1 of None \<Rightarrow> [] | Some e \<Rightarrow> [''Drawing of polytopes failed: '' @ str e]) @
       (case e2 of None \<Rightarrow> [] | Some e \<Rightarrow> [''Drawing of dual cones failed: '' @ str e])),
      e3)"
proof -
  have 1: "try_draw_primal R tube (self, out) =
        (self1, out @ (case e1 of None \<Rightarrow> []
                       | Some e \<Rightarrow> [''Drawing of polytopes failed: '' @ str e]))"
    by (cases e1) (simp_all add: try_draw_primal_def assms(1))
  have 2: "try_draw_dual R tube com_p (self1, out') =
        (self2, out' @ (case e2 of None \<Rightarrow> []
                        | Some e \<Rightarrow> [''Drawing of dual cones failed: '' @ str e]))" for out'
    by (cases e2) (simp_all add: try_draw_dual_def assms(2))
  show ?thesis
    unfolding TubeDrawer_on_tick_def 1 by (simp only: split 2 Let_def assms(3) append_assoc)
qed

lemma TubeDrawer_on_tick_stages:
  "fst (fst (TubeDrawer_on_tick R tube com_p preview_comdd (self, out))) =
     fst (draw_comdd R preview_comdd
            (fst (draw_dual R tube com_p (fst (draw_primal R tube self))))) \<and>
   snd (TubeDrawer_on_tick R tube com_p preview_comdd (self, out)) =
     snd (draw_comdd R preview_comdd
            (fst (draw_dual R tube com_p (fst (draw_primal R tube self))))) \<and>
   snd (fst (TubeDrawer_on_tick R tube com_p preview_comdd (self, out))) =
     out @
     (case snd (draw_primal R tube self) of
        None \<Rightarrow> [] | Some e \<Rightarrow> [''Drawing of polytopes failed: '' @ str e]) @
     (case snd (draw_dual R tube com_p (fst (draw_primal R tube self))) of
        None \<Rightarrow> [] | Some e \<Rightarrow> [''Drawing of dual cones failed: '' @ str e])"
proof -
  obtain self1 e1 where a: "draw_primal R tube self = (self1, e1)"
    by (cases "draw_primal R tube self") auto
  obtain self2 e2 where b: "draw_dual R tube com_p self1 = (self2, e2)"
    by (cases "draw_dual R tube com_p self1") auto
  obtain self3 e3 where c: "draw_comdd R preview_comdd self2 = (self3, e3)"
    by (cases "draw_comdd R preview_comdd self2") auto
  show ?thesis
    unfolding TubeDrawer_on_tick_unfold[OF a b c] by (simp add: a b c)
qed

text \<open>
  Claim C8. On every tick each scheduled process is invoked, in order, whatever
  the processes before it raised, and so on all later ticks; the failure of a
  process is logged and the processes after it run from the world it left.
  Inside \<^verbatim>\<open>TubeDrawer.on_tick\<close>, the dual cones are drawn on what the primal
  stage left and the COM acceleration on what the dual stage left, whether or
  not the earlier stages raised; a failure of the primal stage or of the dual
  stage is printed.
\<close>

theorem process_failure_isolated:
  "invoked (fst (step n (sim, w))) =
     invoked sim @ concat (replicate n (map process_name (processes sim @ extras sim))) \<and>
   (processes sim @ extras sim = before @ p # after \<and>
    fst (tick_processes before (w, [], [])) = w1 \<and> on_tick p w1 = (w2, Some e) \<longrightarrow>
      (process_name p @ '': '' @ str e) \<in> set (failure_log (fst (tick (sim, w)))) \<and>
      snd (tick (sim, w)) = fst (tick_processes after (w2, [], []))) \<and>
   fst (fst (TubeDrawer_on_tick R tube com_p preview_comdd (self, out))) =
     fst (draw_comdd R preview_comdd
            (fst (draw_dual R tube com_p (fst (draw_primal R tube self))))) \<and>
   (snd (draw_primal R tube self) = Some e1 \<longrightarrow>
      take (Suc (length out))
        (snd (fst (TubeDrawer_on_tick R tube com_p preview_comdd (self, out)))) =
      out @ [''Drawing of polytopes failed: '' @ str e1]) \<and>
   (snd (draw_dual R tube com_p (fst (draw_primal R tube self))) = Some e2 \<longrightarrow>
      last (snd (fst (TubeDrawer_on_tick R tube com_p preview_comdd (self, out)))) =
      ''Drawing of dual cones failed: '' @ str e2)"
proof (intro conjI impI)
  show "invoked (fst (step n (sim, w))) =
     invoked sim @ concat (replicate n (map process_name (processes sim @ extras sim)))"
    using step_invoked[of n sim w] by simp
next
  assume a: "processes sim @ extras sim = before @ p # after \<and>
    fst (tick_processes before (w, [], [])) = w1 \<and> on_tick p w1 = (w2, Some e)"
  then have w1: "fst (tick_processes before (w, failure_log sim, invoked sim)) = w1"
    using tick_processes_world[of before w "failure_log sim" "invoked sim"] by simp
  from a have p: "on_tick p w1 = (w2, Some e)" by simp
  note f = tick_processes_failure[OF w1 p, of after]
  obtain w' failures names where
    t: "tick_processes (before @ p # after) (w, failure_log sim, invoked sim) =
          (w', failures, names)"
    by (cases "tick_processes (before @ p # after) (w, failure_log sim, invoked sim)") auto
  from a have ps: "processes sim @ extras sim = before @ p # after" by simp
  show "(process_name p @ '': '' @ str e) \<in> set (failure_log (fst (tick (sim, w))))"
    using f by (simp add: tick_def ps t)
  show "snd (tick (sim, w)) = fst (tick_processes after (w2, [], []))"
    using f by (simp add: tick_def ps t)
next
  show "fst (fst (TubeDrawer_on_tick R tube com_p preview_comdd (self, out))) =
     fst (draw_comdd R preview_comdd
            (fst (draw_dual R tube com_p (fst (draw_primal R tube self)))))"
    using TubeDrawer_on_tick_stages[of R tube com_p preview_comdd self out] by simp
next
  assume "snd (draw_primal R tube self) = Some e1"
  then show "take (Suc (length out))
        (snd (fst (TubeDrawer_on_tick R tube com_p preview_comdd (self, out)))) =
      out @ [''Drawing of polytopes failed: '' @ str e1]"
    using TubeDrawer_on_tick_stages[of R tube com_p preview_comdd self out] by simp
next
  assume "snd (draw_dual R tube com_p (fst (draw_primal R tube self))) = Some e2"
  then show "last (snd (fst (TubeDrawer_on_tick R tube com_p preview_comdd (self, out)))) =
      ''Drawing of dual cones failed: '' @ str e2"
    using TubeDrawer_on_tick_stages[of R tube com_p preview_comdd self out]
    by (simp split: option.splits)
qed

theorem process_failure_isolated_example:
  "invoked (fst (step 2
      (\<lparr>processes =
          [\<lparr>process_name = ''fsm'', on_tick = (\<lambda>w. (w + 1, None))\<rparr>,
           \<lparr>process_name = ''mpc'', on_tick = (\<lambda>w. (w + 10, Some (Exception ''boom'')))\<rparr>],
        extras = [\<lparr>process_name = ''tube_drawer'', on_tick = (\<lambda>w. (2 * w, None))\<rparr>],
        tick_count = 0, failure_log = [], invoked = []\<rparr>, 0::nat))) =
     [''fsm'', ''mpc'', ''tube_drawer'', ''fsm'', ''mpc'', ''tube_drawer''] \<and>
   ''mpc: boom'' \<in> set (failure_log (fst (tick
      (\<lparr>processes =
          [\<lparr>process_name = ''fsm'', on_tick = (\<lambda>w. (w + 1, None))\<rparr>,
           \<lparr>process_name = ''mpc'', on_tick = (\<lambda>w. (w + 10, Some (Exception ''boom'')))\<rparr>],
        extras = [\<lparr>process_name = ''tube_drawer'', on_tick = (\<lambda>w. (2 * w, None))\<rparr>],
        tick_count = 0, failure_log = [], invoked = []\<rparr>, 0::nat)))) \<and>
   snd (tick
      (\<lparr>processes =
          [\<lparr>process_name = ''fsm'', on_tick = (\<lambda>w. (w + 1, None))\<rparr>,
           \<lparr>process_name = ''mpc'', on_tick = (\<lambda>w. (w + 10, Some (Exception ''boom'')))\<rparr>],
        extras = [\<lparr>process_name = ''tube_drawer'', on_tick = (\<lambda>w. (2 * w, None))\<rparr>],
        tick_count = 0, failure_log = [], invoked = []\<rparr>, 0::nat)) = 22 \<and>
   comdd_handle (fst (fst (TubeDrawer_on_tick
      \<lparr>draw_point = (\<lambda>v c. Inl (Exception ''no viewer'')),
       draw_polyhedron = (\<lambda>vs c. Inl (Exception ''no viewer'')),
       draw_3d_cone = (\<lambda>a vs c. Inl (Exception ''no viewer'')),
       draw_line = (\<lambda>a b. Inr (7::nat)), draw_points = (\<lambda>vs. Inr 8)\<rparr>
      None (0, 0, 1) (0, 0, 0) (TubeDrawer_init, [])))) = [7, 8] \<and>
   snd (fst (TubeDrawer_on_tick
      \<lparr>draw_point = (\<lambda>v c. Inl (Exception ''no viewer'')),
       draw_polyhedron = (\<lambda>vs c. Inl (Exception ''no viewer'')),
       draw_3d_cone = (\<lambda>a vs c. Inl (Exception ''no viewer'')),
       draw_line = (\<lambda>a b. Inr (7::nat)), draw_points = (\<lambda>vs. Inr 8)\<rparr>
      None (0, 0, 1) (0, 0, 0) (TubeDrawer_init, []))) =
     [''Drawing of polytopes failed: '' @ [CHR 0x27] @ ''NoneType'' @ [CHR 0x27] @ '' object has no attribute '' @ [CHR 0x27] @ ''start_stance'' @ [CHR 0x27],
      ''Drawing of dual cones failed: '' @ [CHR 0x27] @ ''NoneType'' @ [CHR 0x27] @ '' object has no attribute '' @ [CHR 0x27] @ ''start_stance'' @ [CHR 0x27]]"
proof -
  let ?fsm = "\<lparr>process_name = ''fsm'', on_tick = (\<lambda>w::nat. (w + 1, None::exn option))\<rparr>"
  let ?mpc = "\<lparr>process_name = ''mpc'',
                on_tick = (\<lambda>w::nat. (w + 10, Some (Exception ''boom'')))\<rparr>"
  let ?td = "\<lparr>process_name = ''tube_drawer'', on_tick = (\<lambda>w::nat. (2 * w, None::exn option))\<rparr>"
  let ?sim = "\<lparr>processes = [?fsm, ?mpc], extras = [?td],
                tick_count = 0, failure_log = [], invoked = []\<rparr>"
  let ?R = "\<lparr>draw_point = (\<lambda>v c. Inl (Exception ''no viewer'')),
       draw_polyhedron = (\<lambda>vs c. Inl (Exception ''no viewer'')),
       draw_3d_cone = (\<lambda>a vs c. Inl (Exception ''no viewer'')),
       draw_line = (\<lambda>a b. Inr (7::nat)), draw_points = (\<lambda>vs. Inr 8)\<rparr>"
  have h: "processes ?sim @ extras ?sim = [?fsm] @ ?mpc # [?td] \<and>
    fst (tick_processes [?fsm] (0, [], [])) = 1 \<and>
    on_tick ?mpc 1 = (11, Some (Exception ''boom''))"
    by simp
  have p1: "draw_primal ?R None TubeDrawer_init = (TubeDrawer_init, Some (AttributeError ''start_stance''))"
    by (simp add: draw_primal_def TubeDrawer_init_def)
  have p2: "draw_dual ?R None (0, 0, 1) TubeDrawer_init =
              (TubeDrawer_init\<lparr>trans := (0, 0, 1)\<rparr>, Some (AttributeError ''start_stance''))"
    by (simp add: draw_dual_def TubeDrawer_init_def)
  have p3: "draw_comdd ?R (0, 0, 0) (TubeDrawer_init\<lparr>trans := (0, 0, 1)\<rparr>) =
              (TubeDrawer_init\<lparr>trans := (0, 0, 1), comdd_handle := [7, 8]\<rparr>, None)"
    by (simp add: draw_comdd_def TubeDrawer_init_def)
  note t = process_failure_isolated[where n = 2 and sim = ?sim and w = 0
      and before = "[?fsm]" and p = ?mpc and after = "[?td]"
      and ?w1.0 = 1 and ?w2.0 = 11 and e = "Exception ''boom''"
      and R = ?R and tube = None and com_p = "(0, 0, 1)" and preview_comdd = "(0, 0, 0)"
      and self = TubeDrawer_init and out = "[]"
      and ?e1.0 = "AttributeError ''start_stance''"
      and ?e2.0 = "AttributeError ''start_stance''"]
  have out: "snd (fst (TubeDrawer_on_tick ?R None (0, 0, 1) (0, 0, 0) (TubeDrawer_init, []))) =
     [''Drawing of polytopes failed: '' @ [CHR 0x27] @ ''NoneType'' @ [CHR 0x27] @ '' object has no attribute '' @ [CHR 0x27] @ ''start_stance'' @ [CHR 0x27],
      ''Drawing of dual cones failed: '' @ [CHR 0x27] @ ''NoneType'' @ [CHR 0x27] @ '' object has no attribute '' @ [CHR 0x27] @ ''start_stance'' @ [CHR 0x27]]"
    unfolding TubeDrawer_on_tick_unfold[OF p1 p2 p3] by simp
  from t h show ?thesis
    by (simp add: p1 p2 p3 out numeral_2_eq_2)
qed

end
